theory Spec2Isabelle
  imports Main "HOL-Library.Sublist"
begin


section \<open>Python values shared by both modules\<close>

text \<open>
  A Python \<open>str\<close> is a sequence of Unicode code points and \<open>len\<close> counts code points,
  so a string is a list of code point numbers. The source's literals are Russian; they are
  written out as code points, with \<open>ascii\<close> for their ASCII parts.
\<close>

type_synonym pystr = "nat list"

definition ascii :: "string \<Rightarrow> pystr" where
  "ascii s = map of_char s"

text \<open>\<open>sep.join(parts)\<close>.\<close>

fun py_join :: "pystr \<Rightarrow> pystr list \<Rightarrow> pystr" where
  "py_join sep [] = []"
| "py_join sep [x] = x"
| "py_join sep (x # y # ys) = x @ sep @ py_join sep (y # ys)"

text \<open>
  Exceptions deriving from \<open>Exception\<close>. The handlers of the source tell apart only
  \<open>asyncio.TimeoutError\<close> and \<open>ET.ParseError\<close>; every other exception is \<open>Error m\<close>
  with \<open>m\<close> its \<open>str(e)\<close>.
\<close>

datatype py_exn = TimeoutError | ParseError pystr | Error pystr

fun str_exn :: "py_exn \<Rightarrow> pystr" where
  "str_exn TimeoutError = []"
| "str_exn (ParseError m) = m"
| "str_exn (Error m) = m"

text \<open>\<open>try: body except Exception as e: handler(e)\<close>.\<close>

definition try_except :: "py_exn + 'a \<Rightarrow> (py_exn \<Rightarrow> py_exn + 'a) \<Rightarrow> py_exn + 'a" where
  "try_except body handler = (case body of Inl e \<Rightarrow> handler e | Inr v \<Rightarrow> Inr v)"

section \<open>yandex\_search.py: search result records\<close>

text \<open>
  The dictionary built for every document by \<open>_parse_search_results\<close>: always the same
  seven keys, every value a \<open>str\<close>.
\<close>

record search_result =
  url :: pystr
  domain :: pystr
  title :: pystr
  headline :: pystr
  modtime :: pystr
  lang :: pystr
  content :: pystr

text \<open>
  \<open>max_length\<close> is an \<open>int\<close> or the default \<open>float('inf')\<close>.
\<close>

datatype py_bound = Fin int | Inf

fun bound_gt :: "py_bound \<Rightarrow> int \<Rightarrow> bool" where
  "bound_gt Inf n = True"
| "bound_gt (Fin m) n = (m > n)"

text \<open>
  \<open>optimize_results(parsed_results, min_length=0, max_length=float('inf'))\<close>: the list
  comprehension
  \<^verbatim>\<open>[item for item in parsed_results
     if item.get("content") and max_length > len(item["content"]) > min_length]\<close>
\<close>

definition optimize_results :: "search_result list \<Rightarrow> int \<Rightarrow> py_bound \<Rightarrow> search_result list" where
  "optimize_results parsed_results min_length max_length =
     [item \<leftarrow> parsed_results.
        content item \<noteq> [] \<and> bound_gt max_length (int (length (content item)))
          \<and> int (length (content item)) > min_length]"

text \<open>
  The specification's wording of the filter: a record survives when its content is not
  empty and its length lies strictly between the two bounds.
\<close>

definition spec_survives :: "int \<Rightarrow> py_bound \<Rightarrow> search_result \<Rightarrow> bool" where
  "spec_survives lo hi r =
     (content r \<noteq> [] \<and> lo < int (length (content r))
        \<and> (case hi of Inf \<Rightarrow> True | Fin m \<Rightarrow> int (length (content r)) < m))"

section \<open>yandex\_search.py: the element tree and the text helpers\<close>

text \<open>
  \<open>xml.etree.ElementTree\<close> elements: tag, text, children and tail. A missing text or
  tail (\<open>None\<close>) is the empty string here: \<open>findtext\<close> returns \<open>elem.text or ''\<close> and
  \<open>itertext\<close> skips a falsy text, so the source never tells them apart.
\<close>

datatype xml = Element (el_tag: pystr) (el_text: pystr) (el_children: "xml list") (el_tail: pystr)

text \<open>\<open>elem.iter(tag)\<close>: the element itself and its descendants, in document order.\<close>

fun et_iter :: "pystr \<Rightarrow> xml \<Rightarrow> xml list" where
  "et_iter t (Element tg tx cs ta) =
     (if tg = t then [Element tg tx cs ta] else []) @ concat (map (et_iter t) cs)"

text \<open>\<open>elem.find(tag)\<close>: the first direct child with that tag, or \<open>None\<close>.\<close>

definition et_find :: "pystr \<Rightarrow> xml \<Rightarrow> xml option" where
  "et_find t e = find (\<lambda>c. el_tag c = t) (el_children e)"

text \<open>\<open>elem.findtext(tag, default)\<close>.\<close>

definition et_findtext :: "pystr \<Rightarrow> pystr \<Rightarrow> xml \<Rightarrow> pystr" where
  "et_findtext t dflt e = (case et_find t e of None \<Rightarrow> dflt | Some c \<Rightarrow> el_text c)"

text \<open>\<open>elem.itertext()\<close>: the text, then every child's inner text followed by its tail.\<close>

fun et_itertext :: "xml \<Rightarrow> pystr list" where
  "et_itertext (Element tg tx cs ta) =
     (if tx \<noteq> [] then [tx] else [])
       @ concat (map (\<lambda>c. et_itertext c @ (if el_tail c \<noteq> [] then [el_tail c] else [])) cs)"

text \<open>
  The truth value of an optional element, as \<open>if properties_elem\<close> tests it: \<open>None\<close> is
  false and an element is true when it has at least one child.
\<close>

fun elem_truthy :: "xml option \<Rightarrow> bool" where
  "elem_truthy None = False"
| "elem_truthy (Some e) = (el_children e \<noteq> [])"

text \<open>The code points for which \<open>str.isspace\<close> holds, which \<open>str.strip()\<close> removes.\<close>

definition is_space :: "nat \<Rightarrow> bool" where
  "is_space c = (9 \<le> c \<and> c \<le> 13 \<or> 28 \<le> c \<and> c \<le> 32 \<or> c = 133 \<or> c = 160 \<or> c = 5760
      \<or> 8192 \<le> c \<and> c \<le> 8202 \<or> c = 8232 \<or> c = 8233 \<or> c = 8239 \<or> c = 8287 \<or> c = 12288)"

definition py_strip :: "pystr \<Rightarrow> pystr" where
  "py_strip s = rev (dropWhile is_space (rev (dropWhile is_space s)))"

text \<open>
  \<open>re.sub(r"<[^>]+>", "", text)\<close>: at a \<open><\<close> (60) followed by at least one code point
  other than \<open>>\<close> (62) and then a \<open>>\<close>, everything up to that first \<open>>\<close> is removed and
  the scan goes on behind it; any other code point is kept.
\<close>

function re_sub_tags :: "pystr \<Rightarrow> pystr" where
  "re_sub_tags [] = []"
| "re_sub_tags (c # cs) =
     (if c = 60 \<and> takeWhile (\<lambda>x. x \<noteq> 62) cs \<noteq> [] \<and> dropWhile (\<lambda>x. x \<noteq> 62) cs \<noteq> []
      then re_sub_tags (tl (dropWhile (\<lambda>x. x \<noteq> 62) cs))
      else c # re_sub_tags cs)"
  by pat_completeness auto
termination
proof (relation "measure length")
  show "wf (measure length)" by simp
next
  fix c :: nat and cs :: "nat list"
  have "length (dropWhile (\<lambda>x. x \<noteq> 62) cs) \<le> length cs"
    by (rule length_dropWhile_le)
  then show "(tl (dropWhile (\<lambda>x. x \<noteq> 62) cs), c # cs) \<in> measure length"
    by simp
next
  fix c :: nat and cs :: "nat list"
  show "(cs, c # cs) \<in> measure length" by simp
qed

text \<open>\<open>_get_element_full_text(element)\<close>.\<close>

definition get_element_full_text :: "xml option \<Rightarrow> pystr" where
  "get_element_full_text element =
     (case element of None \<Rightarrow> [] | Some e \<Rightarrow> py_strip (concat (et_itertext e)))"

text \<open>\<open>_clean_text(text)\<close>.\<close>

definition clean_text :: "pystr \<Rightarrow> pystr" where
  "clean_text text = (if text = [] then [] else py_strip (re_sub_tags text))"

section \<open>yandex\_search.py: \_parse\_search\_results\<close>

text \<open>
  The non-empty stripped texts of all \<open>passage\<close> elements below the document, in
  document order: the list \<open>passages\<close> of the source.
\<close>

definition doc_passages :: "xml \<Rightarrow> pystr list" where
  "doc_passages doc_elem =
     filter (\<lambda>passage_text. passage_text \<noteq> [])
       (map (\<lambda>passage_elem. get_element_full_text (Some passage_elem))
          (et_iter (ascii ''passage'') doc_elem))"

text \<open>
  Priority 1 of the source: \<open>content\<close> after the \<open>if properties_elem:\<close> block.
\<close>

definition doc_extended_text :: "xml \<Rightarrow> pystr" where
  "doc_extended_text doc_elem =
     (let properties_elem = et_find (ascii ''properties'') doc_elem in
      if elem_truthy properties_elem then
        (case properties_elem of
           None \<Rightarrow> []
         | Some p \<Rightarrow>
            (case et_find (ascii ''extended-text'') p of
               None \<Rightarrow> []
             | Some ext_elem \<Rightarrow> get_element_full_text (Some ext_elem)))
      else [])"

text \<open>
  The body of the per-document \<open>try\<close> block: the dictionary appended to
  \<open>parsed_results\<close> for one \<open>doc\<close> element.
\<close>

definition extract_doc :: "xml \<Rightarrow> search_result" where
  "extract_doc doc_elem =
     (let headline_v = clean_text (get_element_full_text (et_find (ascii ''headline'') doc_elem));
          properties_elem = et_find (ascii ''properties'') doc_elem;
          content1 = doc_extended_text doc_elem;
          content2 = (if content1 = [] then py_join (ascii '' '') (doc_passages doc_elem)
                      else content1);
          content3 = (if content2 = [] \<and> headline_v \<noteq> [] then headline_v else content2)
      in \<lparr> url = et_findtext (ascii ''url'') [] doc_elem,
           domain = et_findtext (ascii ''domain'') [] doc_elem,
           title = clean_text (get_element_full_text (et_find (ascii ''title'') doc_elem)),
           headline = headline_v,
           modtime = et_findtext (ascii ''modtime'') [] doc_elem,
           lang = (if elem_truthy properties_elem
                   then (case properties_elem of None \<Rightarrow> []
                         | Some p \<Rightarrow> et_findtext (ascii ''lang'') [] p)
                   else []),
           content = clean_text content3 \<rparr>)"

text \<open>
  The loop over the \<open>doc\<close> elements. Each document is handled in its own
  \<open>try ... except Exception: continue\<close>; the body of that \<open>try\<close> is the parameter
  \<open>body\<close>, so that the handler is described for whatever the body raises. A result is
  appended to \<open>parsed_results\<close>, an exception moves on to the next document.
\<close>

fun process_docs ::
  "(xml \<Rightarrow> py_exn + search_result) \<Rightarrow> xml list \<Rightarrow> search_result list \<Rightarrow> search_result list"
where
  "process_docs body [] parsed_results = parsed_results"
| "process_docs body (doc_elem # rest) parsed_results =
     (case body doc_elem of
        Inl doc_error \<Rightarrow> process_docs body rest parsed_results
      | Inr r \<Rightarrow> process_docs body rest (parsed_results @ [r]))"

text \<open>
  \<open>_parse_search_results\<close> with its per-document body and the library's
  \<open>ET.fromstring\<close> as parameters. Both outer handlers (\<open>ET.ParseError\<close> and
  \<open>Exception\<close>) return the empty list.
\<close>

definition parse_search_results_with ::
  "(xml \<Rightarrow> py_exn + search_result) \<Rightarrow> (pystr \<Rightarrow> py_exn + xml) \<Rightarrow> pystr
     \<Rightarrow> py_exn + search_result list"
where
  "parse_search_results_with body fromstring xml_content =
     try_except
       (case fromstring xml_content of
          Inl e \<Rightarrow> Inl e
        | Inr root \<Rightarrow> Inr (process_docs body (et_iter (ascii ''doc'') root) []))
       (\<lambda>e. case e of ParseError m \<Rightarrow> Inr [] | _ \<Rightarrow> Inr [])"

text \<open>The function of the source: the body is \<open>extract_doc\<close>.\<close>

definition parse_search_results ::
  "(pystr \<Rightarrow> py_exn + xml) \<Rightarrow> pystr \<Rightarrow> py_exn + search_result list"
where
  "parse_search_results = parse_search_results_with (\<lambda>doc_elem. Inr (extract_doc doc_elem))"

text \<open>The results a body yields on a list of documents, failures left out.\<close>

definition doc_successes :: "(xml \<Rightarrow> py_exn + search_result) \<Rightarrow> xml list \<Rightarrow> search_result list" where
  "doc_successes body docs =
     List.map_filter (\<lambda>d. case body d of Inl e \<Rightarrow> None | Inr r \<Rightarrow> Some r) docs"

text \<open>The \<open>extended-text\<close> element of a document, when its properties have one.\<close>

definition doc_ext_elem :: "xml \<Rightarrow> xml option" where
  "doc_ext_elem doc_elem =
     (case et_find (ascii ''properties'') doc_elem of
        None \<Rightarrow> None | Some p \<Rightarrow> et_find (ascii ''extended-text'') p)"

text \<open>
  The content rule as the specification words it: the extended text when the property is
  present, otherwise the passages when any exist, otherwise the headline; the chosen text
  goes through the cleaner.
\<close>

definition spec_content :: "xml \<Rightarrow> pystr" where
  "spec_content doc_elem =
     clean_text
       (case doc_ext_elem doc_elem of
          Some ext_elem \<Rightarrow> get_element_full_text (Some ext_elem)
        | None \<Rightarrow>
            if doc_passages doc_elem \<noteq> []
            then py_join (ascii '' '') (doc_passages doc_elem)
            else clean_text (get_element_full_text (et_find (ascii ''headline'') doc_elem)))"

text \<open>A document with an empty extended text and one passage.\<close>

definition example_doc :: xml where
  "example_doc =
     Element (ascii ''doc'') [] [
       Element (ascii ''headline'') (ascii ''h'') [] [],
       Element (ascii ''properties'') [] [Element (ascii ''extended-text'') [] [] []] [],
       Element (ascii ''passages'') [] [Element (ascii ''passage'') (ascii ''p'') [] []] []
     ] []"


text \<open>
  A document without children, a payload root holding three documents, a parser stub
  that rejects the empty string and a per-document body that raises on a document
  without children.
\<close>

definition empty_doc :: xml where
  "empty_doc = Element (ascii ''doc'') [] [] []"

definition example_root :: xml where
  "example_root = Element (ascii ''yandexsearch'') [] [example_doc, empty_doc, example_doc] []"

definition example_fromstring :: "pystr \<Rightarrow> py_exn + xml" where
  "example_fromstring s =
     (if s = [] then Inl (ParseError (ascii ''no element found'')) else Inr example_root)"

definition example_body :: "xml \<Rightarrow> py_exn + search_result" where
  "example_body d =
     (if el_children d = [] then Inl (Error (ascii ''no fields'')) else Inr (extract_doc d))"

section \<open>yandex\_search.py: YandexSearchAPI.search\<close>

text \<open>
  The network is an environment: every request takes the state of the outside world
  \<open>'w\<close> and returns its outcome with the next state. An outcome is an exception raised by
  the call or the response. The calls made are recorded as events.
\<close>

datatype event = OpenSession | CloseSession | Post int | Get pystr | Sleep nat

text \<open>
  The response to the submission: \<open>resp.status\<close>, \<open>await resp.text()\<close> and
  \<open>(await resp.json())["id"]\<close>, the last two of which may raise.
\<close>

record post_response =
  pr_status :: int
  pr_text :: "py_exn + pystr"
  pr_json_id :: "py_exn + pystr"

text \<open>
  The decoded status document: the truth value of \<open>operation.get("done")\<close> and
  \<open>operation["response"]["rawData"]\<close>, \<open>None\<close> when a key is missing.
\<close>

record operation =
  op_done :: bool
  op_rawData :: "pystr option"

record get_response =
  gr_status :: int
  gr_json :: "py_exn + operation"

record 'w search_env =
  open_session :: "'w \<Rightarrow> py_exn option \<times> 'w"
  close_session :: "'w \<Rightarrow> py_exn option \<times> 'w"
  post_search :: "'w \<Rightarrow> pystr \<Rightarrow> int \<Rightarrow> (py_exn + post_response) \<times> 'w"
  get_operation :: "'w \<Rightarrow> pystr \<Rightarrow> (py_exn + get_response) \<times> 'w"
  sleep :: "nat \<Rightarrow> 'w \<Rightarrow> 'w"
  b64decode_utf8 :: "pystr \<Rightarrow> py_exn + pystr"
  et_fromstring :: "pystr \<Rightarrow> py_exn + xml"

text \<open>
  \<open>base64.b64decode(operation["response"]["rawData"]).decode("utf-8")\<close>: a missing key
  raises \<open>KeyError\<close>, the decoding may raise as well.
\<close>

definition decode_payload :: "'w search_env \<Rightarrow> operation \<Rightarrow> py_exn + pystr" where
  "decode_payload env operation =
     (case op_rawData operation of
        None \<Rightarrow> Inl (Error (ascii ''KeyError''))
      | Some raw \<Rightarrow> b64decode_utf8 env raw)"

text \<open>
  The polling loop of one operation, from the value \<open>attempts\<close> of its counter:
  \<^verbatim>\<open>while attempts < 10:
      async with session.get(...) as resp:
          if resp.status != 200:
              await asyncio.sleep(1); attempts += 1; continue
          operation = await resp.json()
          if operation.get("done"):
              xml_results.append(b64decode(...).decode("utf-8")); break
      await asyncio.sleep(1); attempts += 1\<close>
  The result is an exception that leaves the loop, \<open>Some\<close> payload, or \<open>None\<close> when the
  loop ran out of attempts.
\<close>

function poll_operation ::
  "'w search_env \<Rightarrow> pystr \<Rightarrow> nat \<Rightarrow> 'w \<Rightarrow> (py_exn + pystr option) \<times> 'w \<times> event list"
where
  "poll_operation env op_id attempts w =
     (if attempts < 10 then
        (case get_operation env w op_id of
           (Inl e, w1) \<Rightarrow> (Inl e, w1, [Get op_id])
         | (Inr resp, w1) \<Rightarrow>
             if gr_status resp \<noteq> 200 then
               (case poll_operation env op_id (attempts + 1) (sleep env 1 w1) of
                  (r, w2, evs) \<Rightarrow> (r, w2, Get op_id # Sleep 1 # evs))
             else
               (case gr_json resp of
                  Inl e \<Rightarrow> (Inl e, w1, [Get op_id])
                | Inr operation \<Rightarrow>
                    if op_done operation then
                      (case decode_payload env operation of
                         Inl e \<Rightarrow> (Inl e, w1, [Get op_id])
                       | Inr xml_text \<Rightarrow> (Inr (Some xml_text), w1, [Get op_id]))
                    else
                      (case poll_operation env op_id (attempts + 1) (sleep env 1 w1) of
                         (r, w2, evs) \<Rightarrow> (r, w2, Get op_id # Sleep 1 # evs))))
      else (Inr None, w, []))"
  by pat_completeness auto
termination
  by (relation "measure (\<lambda>(env, op_id, attempts, w). 10 - attempts)") auto

text \<open>\<open>for op_id in operations\<close>: the payloads are appended to \<open>xml_results\<close>.\<close>

fun poll_all ::
  "'w search_env \<Rightarrow> pystr list \<Rightarrow> pystr list \<Rightarrow> 'w \<Rightarrow> (py_exn + pystr list) \<times> 'w \<times> event list"
where
  "poll_all env [] xml_results w = (Inr xml_results, w, [])"
| "poll_all env (op_id # rest) xml_results w =
     (case poll_operation env op_id 0 w of
        (Inl e, w1, evs) \<Rightarrow> (Inl e, w1, evs)
      | (Inr None, w1, evs) \<Rightarrow>
          (case poll_all env rest xml_results w1 of
             (r, w2, evs2) \<Rightarrow> (r, w2, evs @ evs2))
      | (Inr (Some xml_text), w1, evs) \<Rightarrow>
          (case poll_all env rest (xml_results @ [xml_text]) w1 of
             (r, w2, evs2) \<Rightarrow> (r, w2, evs @ evs2)))"

text \<open>
  \<open>for page in pages_to_fetch\<close>: one submission per page. The request body is built from
  the query text, the page and the fixed settings of the client; the oracle receives the
  query text and the page. A status other than 200 reads the error text and goes on to
  the next page.
\<close>

fun submit_all ::
  "'w search_env \<Rightarrow> pystr \<Rightarrow> int list \<Rightarrow> pystr list \<Rightarrow> 'w \<Rightarrow> (py_exn + pystr list) \<times> 'w \<times> event list"
where
  "submit_all env query_text [] operations w = (Inr operations, w, [])"
| "submit_all env query_text (page # rest) operations w =
     (case post_search env w query_text page of
        (Inl e, w1) \<Rightarrow> (Inl e, w1, [Post page])
      | (Inr resp, w1) \<Rightarrow>
          if pr_status resp \<noteq> 200 then
            (case pr_text resp of
               Inl e \<Rightarrow> (Inl e, w1, [Post page])
             | Inr error \<Rightarrow>
                 (case submit_all env query_text rest operations w1 of
                    (r, w2, evs) \<Rightarrow> (r, w2, Post page # evs)))
          else
            (case pr_json_id resp of
               Inl e \<Rightarrow> (Inl e, w1, [Post page])
             | Inr op_id \<Rightarrow>
                 (case submit_all env query_text rest (operations @ [op_id]) w1 of
                    (r, w2, evs) \<Rightarrow> (r, w2, Post page # evs))))"

text \<open>
  \<open>for xml in xml_results: parsed.extend(_parse_search_results(xml))\<close>.
\<close>

fun parse_all :: "'w search_env \<Rightarrow> pystr list \<Rightarrow> search_result list \<Rightarrow> py_exn + search_result list" where
  "parse_all env [] parsed = Inr parsed"
| "parse_all env (xml_text # rest) parsed =
     (case parse_search_results (et_fromstring env) xml_text of
        Inl e \<Rightarrow> Inl e
      | Inr rs \<Rightarrow> parse_all env rest (parsed @ rs))"

text \<open>The block inside \<open>async with aiohttp.ClientSession(...) as session\<close>.\<close>

definition search_session ::
  "'w search_env \<Rightarrow> pystr \<Rightarrow> int list \<Rightarrow> 'w \<Rightarrow> (py_exn + search_result list) \<times> 'w \<times> event list"
where
  "search_session env query_text pages_to_fetch w =
     (case submit_all env query_text pages_to_fetch [] w of
        (Inl e, w1, evs) \<Rightarrow> (Inl e, w1, evs)
      | (Inr operations, w1, evs) \<Rightarrow>
          (case poll_all env operations [] w1 of
             (Inl e, w2, evs2) \<Rightarrow> (Inl e, w2, evs @ evs2)
           | (Inr xml_results, w2, evs2) \<Rightarrow> (parse_all env xml_results [], w2, evs @ evs2)))"

text \<open>
  The body of the outer \<open>try\<close>: the session is opened, the block runs, and the session is
  closed on the way out, whether the block returned or raised; an exception raised while
  closing replaces the outcome.
\<close>

definition search_body ::
  "'w search_env \<Rightarrow> pystr \<Rightarrow> int list \<Rightarrow> 'w \<Rightarrow> (py_exn + search_result list) \<times> 'w \<times> event list"
where
  "search_body env query_text pages_to_fetch w =
     (case open_session env w of
        (Some e, w1) \<Rightarrow> (Inl e, w1, [OpenSession])
      | (None, w1) \<Rightarrow>
          (case search_session env query_text pages_to_fetch w1 of
             (r, w2, evs) \<Rightarrow>
               (case close_session env w2 of
                  (Some e, w3) \<Rightarrow> (Inl e, w3, OpenSession # evs @ [CloseSession])
                | (None, w3) \<Rightarrow> (r, w3, OpenSession # evs @ [CloseSession]))))"

text \<open>
  \<open>search\<close>: \<open>try: ... except Exception as e: log; return []\<close>.
\<close>

definition search ::
  "'w search_env \<Rightarrow> pystr \<Rightarrow> int list \<Rightarrow> 'w \<Rightarrow> (py_exn + search_result list) \<times> 'w \<times> event list"
where
  "search env query_text pages_to_fetch w =
     (case search_body env query_text pages_to_fetch w of
        (r, w1, evs) \<Rightarrow> (try_except r (\<lambda>e. Inr []), w1, evs))"

text \<open>
  The events of a polling loop that made \<open>k\<close> attempts each followed by a sleep and, when
  \<open>stopped\<close>, one more attempt on which it left the loop.
\<close>

definition poll_trace :: "pystr \<Rightarrow> nat \<Rightarrow> bool \<Rightarrow> event list" where
  "poll_trace op_id k stopped =
     concat (replicate k [Get op_id, Sleep 1]) @ (if stopped then [Get op_id] else [])"

text \<open>
  An example network whose world is the number of seconds slept: the session cannot be
  opened at time 99, page 0 is accepted and every other page refused, a status request
  fails with 503 at time 0, and the operation \<open>ok\<close> is done from time 2 on while any
  other operation never is.
\<close>

definition example_search_env :: "nat search_env" where
  "example_search_env =
     \<lparr> open_session = (\<lambda>w. if w = 99 then (Some (Error (ascii ''cannot connect'')), w) else (None, w)),
       close_session = (\<lambda>w. (None, w)),
       post_search = (\<lambda>w q page.
          (Inr \<lparr> pr_status = (if page = 0 then 200 else 500), pr_text = Inr [],
                 pr_json_id = Inr (ascii ''ok'') \<rparr>, w)),
       get_operation = (\<lambda>w op_id.
          (Inr \<lparr> gr_status = (if w = 0 then 503 else 200),
                 gr_json = Inr \<lparr> op_done = (op_id = ascii ''ok'' \<and> 2 \<le> w),
                                  op_rawData = Some (ascii ''eA=='') \<rparr> \<rparr>, w)),
       sleep = (\<lambda>n w. w + n),
       b64decode_utf8 = (\<lambda>raw. Inr (ascii ''x'')),
       et_fromstring = example_fromstring \<rparr>"

section \<open>mcp\_client.py: data\<close>

text \<open>
  JSON values: the raw reply of the model endpoint, tool arguments and input schemas.
  Numbers are integers here; a float behaves like an integer in every operation below.
\<close>

datatype json =
  JNull | JBool bool | JNum int | JStr pystr | JArr "json list" | JObj "(pystr \<times> json) list"

text \<open>The truth value of a Python value, as \<open>if content:\<close> tests it.\<close>

fun json_truthy :: "json \<Rightarrow> bool" where
  "json_truthy JNull = False"
| "json_truthy (JBool b) = b"
| "json_truthy (JNum n) = (n \<noteq> 0)"
| "json_truthy (JStr s) = (s \<noteq> [])"
| "json_truthy (JArr xs) = (xs \<noteq> [])"
| "json_truthy (JObj kvs) = (kvs \<noteq> [])"


fun py_type_name :: "json \<Rightarrow> pystr" where
  "py_type_name JNull = ascii ''NoneType''"
| "py_type_name (JBool b) = ascii ''bool''"
| "py_type_name (JNum n) = ascii ''int''"
| "py_type_name (JStr s) = ascii ''str''"
| "py_type_name (JArr xs) = ascii ''list''"
| "py_type_name (JObj kvs) = ascii ''dict''"

text \<open>The \<open>AttributeError\<close> of \<open>v.attr\<close> on a value without that attribute.\<close>

definition attribute_error :: "json \<Rightarrow> pystr \<Rightarrow> py_exn" where
  "attribute_error v attr =
     Error ([39] @ py_type_name v @ [39] @ ascii '' object has no attribute '' @ [39] @ attr @ [39])"

text \<open>
  \<open>v.get(key, default)\<close>: the lookup on a dictionary, \<open>AttributeError\<close> on any other
  value.
\<close>

fun py_get :: "json \<Rightarrow> pystr \<Rightarrow> json \<Rightarrow> py_exn + json" where
  "py_get (JObj kvs) key dflt = Inr (case map_of kvs key of None \<Rightarrow> dflt | Some v \<Rightarrow> v)"
| "py_get v key dflt = Inl (attribute_error v (ascii ''get''))"

text \<open>
  \<open>for x in v\<close>: the elements of a list, the keys of a dictionary, the characters of a
  string; any other value is not iterable.
\<close>

fun py_iter :: "json \<Rightarrow> py_exn + json list" where
  "py_iter (JArr xs) = Inr xs"
| "py_iter (JObj kvs) = Inr (map (\<lambda>kv. JStr (fst kv)) kvs)"
| "py_iter (JStr s) = Inr (map (\<lambda>c. JStr [c]) s)"
| "py_iter v = Inl (Error ([39] @ py_type_name v @ [39] @ ascii '' object is not iterable''))"

text \<open>
  An entry of \<open>available_tools\<close>: an MCP \<open>Tool\<close> with its name, its optional description
  and its input schema.
\<close>

record tool =
  tool_name :: pystr
  tool_description :: "pystr option"
  tool_inputSchema :: json

datatype role = System | User | Assistant | Tool

text \<open>
  A conversation message: the dictionary with its optional keys. The content of an
  assistant message, its \<open>tool_calls\<close> and the \<open>tool_call_id\<close> of a tool message are
  the values read from the model's reply, whatever they are.
\<close>

record message =
  msg_role :: role
  msg_content :: json
  msg_tool_calls :: "json option"
  msg_tool_call_id :: "json option"

text \<open>An item of a tool result: only the items with a \<open>text\<close> attribute are kept.\<close>

datatype content_item = TextContent pystr | OtherContent

text \<open>An entry of the list sent to the model, built by \<open>_format_tools_for_llm\<close>.\<close>

record llm_tool =
  lt_name :: pystr
  lt_description :: "pystr option"
  lt_parameters :: json

text \<open>An attribute of the client: not set, set to \<open>None\<close>, or holding a live object.\<close>

datatype slot = Missing | IsNone | Live

text \<open>
  The attributes of \<open>MCPClient\<close> that \<open>process_query\<close> and \<open>cleanup\<close> read.
  \<open>mcp_client\<close> exists only after an HTTP connection; \<open>exit_stack\<close> is set by
  \<open>__init__\<close>.
\<close>

record mcp_client =
  instructions :: "pystr option"
  available_tools :: "tool list"
  mcp_client_attr :: slot
  exit_stack_attr :: slot

text \<open>
  What lies outside the client: the JSON parser on strings, \<open>repr\<close> of a value, the two
  tool transports and the model endpoint (each call under \<open>asyncio.wait_for\<close>, so
  \<open>TimeoutError\<close> is one of its exceptions), \<open>repr\<close> of the tool descriptions, and the
  three resources that \<open>cleanup\<close> closes. Every call takes the state of the world and
  returns the next one. The model call returns the reply as \<open>_call_llm\<close> hands it on:
  the message of the endpoint, not validated.
\<close>

record 'w agent_env =
  json_loads :: "pystr \<Rightarrow> py_exn + json"
  py_repr :: "json \<Rightarrow> pystr"
  mcp_call_tool :: "'w \<Rightarrow> json \<Rightarrow> json \<Rightarrow> (py_exn + content_item list) \<times> 'w"
  session_call_tool :: "'w \<Rightarrow> json \<Rightarrow> json \<Rightarrow> (py_exn + content_item list) \<times> 'w"
  call_llm :: "'w \<Rightarrow> message list \<Rightarrow> llm_tool list \<Rightarrow> (py_exn + json) \<times> 'w"
  py_repr_tools :: "(pystr \<times> pystr \<times> json) list \<Rightarrow> pystr"
  http_client_aclose :: "'w \<Rightarrow> py_exn option \<times> 'w"
  mcp_client_close :: "'w \<Rightarrow> py_exn option \<times> 'w"
  exit_stack_aclose :: "'w \<Rightarrow> py_exn option \<times> 'w"

text \<open>A value inside an f-string: a string as it is, anything else by its \<open>repr\<close>.\<close>

definition format_value :: "'w agent_env \<Rightarrow> json \<Rightarrow> pystr" where
  "format_value env v = (case v of JStr s \<Rightarrow> s | _ \<Rightarrow> py_repr env v)"

text \<open>\<open>json.loads(v)\<close>: a value that is not a string raises \<open>TypeError\<close>.\<close>

definition py_json_loads :: "'w agent_env \<Rightarrow> json \<Rightarrow> py_exn + json" where
  "py_json_loads env v =
     (case v of
        JStr s \<Rightarrow> json_loads env s
      | _ \<Rightarrow> Inl (Error (ascii ''the JSON object must be str, bytes or bytearray, not ''
                          @ py_type_name v)))"

section \<open>mcp\_client.py: string literals and formatting\<close>

text \<open>The sentinel returned when nothing was collected (``empty answer.'').\<close>

definition msg_empty_answer :: pystr where
  "msg_empty_answer = [1055, 1091, 1089, 1090, 1086, 1081, 32, 1086, 1090, 1074, 1077, 1090, 46]"

text \<open>A line feed and ``final answer: ''.\<close>

definition msg_final_answer_prefix :: pystr where
  "msg_final_answer_prefix =
     [10, 1048, 1090, 1086, 1075, 1086, 1074, 1099, 1081, 32, 1086, 1090, 1074, 1077, 1090, 58, 32]"

text \<open>A line feed and ``timeout while getting the final answer''.\<close>

definition msg_final_timeout :: pystr where
  "msg_final_timeout =
     [10, 1058, 1072, 1081, 1084, 1072, 1091, 1090, 32, 1087, 1088, 1080, 32, 1087, 1086, 1083,
      1091, 1095, 1077, 1085, 1080, 1080, 32, 1092, 1080, 1085, 1072, 1083, 1100, 1085, 1086,
      1075, 1086, 32, 1086, 1090, 1074, 1077, 1090, 1072]"

text \<open>``LLM timeout at iteration ''.\<close>

definition msg_llm_timeout_prefix :: pystr where
  "msg_llm_timeout_prefix =
     [1058, 1072, 1081, 1084, 1072, 1091, 1090, 32, 76, 76, 77, 32, 1085, 1072, 32, 1080, 1090,
      1077, 1088, 1072, 1094, 1080, 1080, 32]"

text \<open>``error at iteration ''.\<close>

definition msg_iteration_error_prefix :: pystr where
  "msg_iteration_error_prefix =
     [1054, 1096, 1080, 1073, 1082, 1072, 32, 1085, 1072, 32, 1080, 1090, 1077, 1088, 1072,
      1094, 1080, 1080, 32]"

text \<open>``timeout while calling the tool ''.\<close>

definition msg_tool_timeout_prefix :: pystr where
  "msg_tool_timeout_prefix =
     [1058, 1072, 1081, 1084, 1072, 1091, 1090, 32, 1087, 1088, 1080, 32, 1074, 1099, 1079,
      1086, 1074, 1077, 32, 1080, 1085, 1089, 1090, 1088, 1091, 1084, 1077, 1085, 1090, 1072, 32]"

text \<open>``error while calling the tool ''.\<close>

definition msg_tool_error_prefix :: pystr where
  "msg_tool_error_prefix =
     [1054, 1096, 1080, 1073, 1082, 1072, 32, 1087, 1088, 1080, 32, 1074, 1099, 1079, 1086,
      1074, 1077, 32, 1080, 1085, 1089, 1090, 1088, 1091, 1084, 1077, 1085, 1090, 1072, 32]"

text \<open>``critical error while processing the query: ''.\<close>

definition msg_critical_prefix :: pystr where
  "msg_critical_prefix =
     [1050, 1088, 1080, 1090, 1080, 1095, 1077, 1089, 1082, 1072, 1103, 32, 1086, 1096, 1080,
      1073, 1082, 1072, 32, 1087, 1088, 1080, 32, 1086, 1073, 1088, 1072, 1073, 1086, 1090,
      1082, 1077, 32, 1079, 1072, 1087, 1088, 1086, 1089, 1072, 58, 32]"

text \<open>Two line feeds, ``you have access to the following tools:'' and a line feed.\<close>

definition msg_tools_header :: pystr where
  "msg_tools_header =
     [10, 10, 1059, 32, 1090, 1077, 1073, 1103, 32, 1077, 1089, 1090, 1100, 32, 1076, 1086,
      1089, 1090, 1091, 1087, 32, 1082, 32, 1089, 1083, 1077, 1076, 1091, 1102, 1097, 1080,
      1084, 32, 1080, 1085, 1089, 1090, 1088, 1091, 1084, 1077, 1085, 1090, 1072, 1084, 58, 10]"

text \<open>\<open>str(n)\<close> for a natural number: its decimal digits.\<close>

function str_nat :: "nat \<Rightarrow> pystr" where
  "str_nat n = (if n < 10 then [48 + n] else str_nat (n div 10) @ [48 + n mod 10])"
  by pat_completeness auto
termination
  by (relation "measure id") auto

text \<open>
  \<open>re.sub(r'\n|\t|-{5,}', ' ', s)\<close>: a line feed (10), a tab (9) or a run of at least five
  hyphens (45) becomes one space (32).
\<close>

function sub_separators :: "pystr \<Rightarrow> pystr" where
  "sub_separators [] = []"
| "sub_separators (c # cs) =
     (if c = 10 \<or> c = 9 then 32 # sub_separators cs
      else if c = 45 \<and> 4 \<le> length (takeWhile (\<lambda>x. x = 45) cs)
      then 32 # sub_separators (dropWhile (\<lambda>x. x = 45) cs)
      else c # sub_separators cs)"
  by pat_completeness auto
termination
proof (relation "measure length")
  show "wf (measure length)" by simp
next
  fix c :: nat and cs :: "nat list"
  show "(cs, c # cs) \<in> measure length" by simp
next
  fix c :: nat and cs :: "nat list"
  have "length (dropWhile (\<lambda>x. x = 45) cs) \<le> length cs"
    by (rule length_dropWhile_le)
  then show "(dropWhile (\<lambda>x. x = 45) cs, c # cs) \<in> measure length"
    by simp
next
  fix c :: nat and cs :: "nat list"
  show "(cs, c # cs) \<in> measure length" by simp
qed

text \<open>\<open>re.sub(r' {2,}', ' ', s)\<close>: a run of at least two spaces becomes one space.\<close>

function sub_spaces :: "pystr \<Rightarrow> pystr" where
  "sub_spaces [] = []"
| "sub_spaces (c # cs) =
     (if c = 32 \<and> takeWhile (\<lambda>x. x = 32) cs \<noteq> []
      then 32 # sub_spaces (dropWhile (\<lambda>x. x = 32) cs)
      else c # sub_spaces cs)"
  by pat_completeness auto
termination
proof (relation "measure length")
  show "wf (measure length)" by simp
next
  fix c :: nat and cs :: "nat list"
  have "length (dropWhile (\<lambda>x. x = 32) cs) \<le> length cs"
    by (rule length_dropWhile_le)
  then show "(dropWhile (\<lambda>x. x = 32) cs, c # cs) \<in> measure length"
    by simp
next
  fix c :: nat and cs :: "nat list"
  show "(cs, c # cs) \<in> measure length" by simp
qed

text \<open>
  The message of the \<open>TypeError\<close> that \<open>re.sub\<close> raises when the description is
  \<open>None\<close>.
\<close>

definition re_sub_none_error :: py_exn where
  "re_sub_none_error =
     Error (ascii ''expected string or bytes-like object, got '' @ [39] @ ascii ''NoneType'' @ [39])"

text \<open>
  \<open>_tools_description\<close>: name, normalised description and schema of every tool. A tool
  without description makes \<open>re.sub\<close> raise.
\<close>

fun tools_description :: "tool list \<Rightarrow> py_exn + (pystr \<times> pystr \<times> json) list" where
  "tools_description [] = Inr []"
| "tools_description (t # ts) =
     (case tool_description t of
        None \<Rightarrow> Inl re_sub_none_error
      | Some d \<Rightarrow>
          (case tools_description ts of
             Inl e \<Rightarrow> Inl e
           | Inr rest \<Rightarrow>
               Inr ((tool_name t, py_strip (sub_spaces (sub_separators d)), tool_inputSchema t)
                      # rest)))"

text \<open>
  \<open>_create_system_message\<close>: the f-string of the instructions (\<open>None\<close> prints as
  \<open>None\<close>), the header and the \<open>repr\<close> of the tool descriptions.
\<close>

definition create_system_message :: "'w agent_env \<Rightarrow> mcp_client \<Rightarrow> py_exn + pystr" where
  "create_system_message env self =
     (case tools_description (available_tools self) of
        Inl e \<Rightarrow> Inl e
      | Inr descs \<Rightarrow>
          Inr ((case instructions self of None \<Rightarrow> ascii ''None'' | Some s \<Rightarrow> s)
                 @ msg_tools_header @ py_repr_tools env descs))"

text \<open>
  \<open>_format_tools_for_llm\<close>; \<open>tool.inputSchema or {}\<close> replaces a falsy schema by the
  empty object.
\<close>

definition format_tools_for_llm :: "mcp_client \<Rightarrow> llm_tool list" where
  "format_tools_for_llm self =
     map (\<lambda>t. \<lparr> lt_name = tool_name t, lt_description = tool_description t,
                lt_parameters = (if json_truthy (tool_inputSchema t) then tool_inputSchema t
                                 else JObj []) \<rparr>)
         (available_tools self)"

text \<open>\<open>_format_tool_result\<close>: the texts of the items that have one, joined by line feeds.\<close>

definition format_tool_result :: "content_item list \<Rightarrow> pystr" where
  "format_tool_result content_list =
     py_join [10] (List.map_filter (\<lambda>item. case item of TextContent t \<Rightarrow> Some t
                                             | OtherContent \<Rightarrow> None) content_list)"

section \<open>mcp\_client.py: process\_query\<close>

text \<open>
  The variables of \<open>process_query\<close> that change during the loop, with the world. The
  fragments of \<open>final_text\<close> are the values appended: contents of replies as they came,
  and texts. Two observations are recorded as well: the value \<open>i+1\<close> announced at the
  start of every iteration, and the number of model calls, in the loop and for the final
  answer.
\<close>

record 'w loop_state =
  messages :: "message list"
  final_text :: "json list"
  world :: 'w
  iterations :: "nat list"
  llm_calls :: nat
  final_calls :: nat

definition max_iterations :: nat where
  "max_iterations = 10"

definition tool_message :: "json \<Rightarrow> pystr \<Rightarrow> message" where
  "tool_message tool_call_id text =
     \<lparr> msg_role = Tool, msg_content = JStr text, msg_tool_calls = None,
       msg_tool_call_id = Some tool_call_id \<rparr>"

definition assistant_message :: "json \<Rightarrow> json \<Rightarrow> message" where
  "assistant_message content_v tool_calls =
     \<lparr> msg_role = Assistant, msg_content = content_v, msg_tool_calls = Some tool_calls,
       msg_tool_call_id = None \<rparr>"

text \<open>
  The three reads at the head of the tool loop, before its \<open>try\<close>:
  \<open>function = tool_call.get("function", {})\<close>,
  \<open>tool_name = function.get("name", "")\<close> and
  \<open>tool_call_id = tool_call.get("id", "")\<close>. An entry that is not a dictionary, or
  whose \<open>function\<close> is not one, raises here.
\<close>

definition read_tool_call :: "json \<Rightarrow> py_exn + (json \<times> json \<times> json)" where
  "read_tool_call tool_call =
     (case py_get tool_call (ascii ''function'') (JObj []) of
        Inl e \<Rightarrow> Inl e
      | Inr function_v \<Rightarrow>
          (case py_get function_v (ascii ''name'') (JStr []) of
             Inl e \<Rightarrow> Inl e
           | Inr tool_name_v \<Rightarrow>
               (case py_get tool_call (ascii ''id'') (JStr []) of
                  Inl e \<Rightarrow> Inl e
                | Inr tool_call_id \<Rightarrow> Inr (function_v, tool_name_v, tool_call_id))))"

text \<open>
  The body of the \<open>try\<close> around one tool call: the arguments are parsed, the tool is
  called through \<open>self.mcp_client\<close> when the client has that attribute and through the
  stdio session otherwise, and the result is turned into text.
\<close>

definition run_tool ::
  "'w agent_env \<Rightarrow> mcp_client \<Rightarrow> json \<Rightarrow> json \<Rightarrow> 'w \<Rightarrow> (py_exn + pystr) \<times> 'w"
where
  "run_tool env self function_v tool_name_v w =
     (case py_get function_v (ascii ''arguments'') (JStr (ascii ''{}'')) of
        Inl e \<Rightarrow> (Inl e, w)
      | Inr raw \<Rightarrow>
          (case py_json_loads env raw of
             Inl e \<Rightarrow> (Inl e, w)
           | Inr arguments \<Rightarrow>
               (case (if mcp_client_attr self \<noteq> Missing
                      then (if mcp_client_attr self = Live
                            then mcp_call_tool env w tool_name_v arguments
                            else (Inl (attribute_error JNull (ascii ''call_tool'')), w))
                      else session_call_tool env w tool_name_v arguments) of
                  (Inl e, w1) \<Rightarrow> (Inl e, w1)
                | (Inr content_list, w1) \<Rightarrow> (Inr (format_tool_result content_list), w1))))"


text \<open>
  \<open>for tool_call in tool_calls\<close>. The reads at the head are outside the \<open>try\<close>: their
  exception leaves the loop (first component \<open>Some\<close>). Each of the three exits of the
  \<open>try\<close> appends one text to \<open>tool_results\<close> and one tool message to \<open>messages\<close>.
\<close>

fun run_tool_calls ::
  "'w agent_env \<Rightarrow> mcp_client \<Rightarrow> json list \<Rightarrow> message list \<Rightarrow> pystr list \<Rightarrow> 'w
     \<Rightarrow> py_exn option \<times> message list \<times> pystr list \<times> 'w"
where
  "run_tool_calls env self [] msgs tool_results w = (None, msgs, tool_results, w)"
| "run_tool_calls env self (tool_call # rest) msgs tool_results w =
     (case read_tool_call tool_call of
        Inl e \<Rightarrow> (Some e, msgs, tool_results, w)
      | Inr (function_v, tool_name_v, tool_call_id) \<Rightarrow>
          (case run_tool env self function_v tool_name_v w of
             (Inr tool_result, w1) \<Rightarrow>
               run_tool_calls env self rest
                 (msgs @ [tool_message tool_call_id tool_result])
                 (tool_results @ [tool_result]) w1
           | (Inl TimeoutError, w1) \<Rightarrow>
               run_tool_calls env self rest
                 (msgs @ [tool_message tool_call_id
                            (msg_tool_timeout_prefix @ format_value env tool_name_v)])
                 (tool_results @ [msg_tool_timeout_prefix @ format_value env tool_name_v]) w1
           | (Inl e, w1) \<Rightarrow>
               run_tool_calls env self rest
                 (msgs @ [tool_message tool_call_id
                            (msg_tool_error_prefix @ format_value env tool_name_v
                               @ ascii '': '' @ str_exn e)])
                 (tool_results @ [msg_tool_error_prefix @ format_value env tool_name_v
                                    @ ascii '': '' @ str_exn e]) w1))"

text \<open>
  The block \<open>if i == max_iterations - 1 and tool_results\<close>: one more model call, whose
  truthy content is appended inside an f-string; a timeout is appended as text, any other
  exception is only logged.
\<close>

definition final_answer :: "'w agent_env \<Rightarrow> llm_tool list \<Rightarrow> 'w loop_state \<Rightarrow> 'w loop_state" where
  "final_answer env tools st =
     (case call_llm env (world st) (messages st) tools of
        (Inr final_response, w1) \<Rightarrow>
          (case py_get final_response (ascii ''content'') (JStr []) of
             Inl e \<Rightarrow> st\<lparr> world := w1, final_calls := final_calls st + 1 \<rparr>
           | Inr final_content \<Rightarrow>
               if json_truthy final_content
               then st\<lparr> world := w1, final_calls := final_calls st + 1,
                        final_text := final_text st
                          @ [JStr (msg_final_answer_prefix @ format_value env final_content)] \<rparr>
               else st\<lparr> world := w1, final_calls := final_calls st + 1 \<rparr>)
      | (Inl TimeoutError, w1) \<Rightarrow>
          st\<lparr> world := w1, final_calls := final_calls st + 1,
               final_text := final_text st @ [JStr msg_final_timeout] \<rparr>
      | (Inl e, w1) \<Rightarrow> st\<lparr> world := w1, final_calls := final_calls st + 1 \<rparr>)"

text \<open>\<open>if content: final_text.append(content)\<close>: the content as it came.\<close>

definition append_content :: "json \<Rightarrow> json list \<Rightarrow> json list" where
  "append_content content_v ft = (if json_truthy content_v then ft @ [content_v] else ft)"

text \<open>
  The body of the \<open>try\<close> of one iteration: the model call, the reads of \<open>tool_calls\<close>
  and \<open>content\<close>, the \<open>break\<close> when there are no tool calls (\<open>Inr False\<close>), the
  assistant message, the tool loop and the final answer (\<open>Inr True\<close>). An exception
  leaves the body with the state reached so far.
\<close>

definition iteration_body ::
  "'w agent_env \<Rightarrow> mcp_client \<Rightarrow> llm_tool list \<Rightarrow> nat \<Rightarrow> 'w loop_state
     \<Rightarrow> (py_exn + bool) \<times> 'w loop_state"
where
  "iteration_body env self tools i st =
     (case call_llm env (world st) (messages st) tools of
        (Inl e, w1) \<Rightarrow> (Inl e, st\<lparr> world := w1 \<rparr>)
      | (Inr llm_response, w1) \<Rightarrow>
          (case py_get llm_response (ascii ''tool_calls'') (JArr []) of
             Inl e \<Rightarrow> (Inl e, st\<lparr> world := w1 \<rparr>)
           | Inr tool_calls \<Rightarrow>
               (case py_get llm_response (ascii ''content'') (JStr []) of
                  Inl e \<Rightarrow> (Inl e, st\<lparr> world := w1 \<rparr>)
                | Inr content_v \<Rightarrow>
                    if \<not> json_truthy tool_calls
                    then (Inr False,
                          st\<lparr> world := w1,
                               final_text := append_content content_v (final_text st) \<rparr>)
                    else
                      (case py_iter tool_calls of
                         Inl e \<Rightarrow>
                           (Inl e,
                            st\<lparr> world := w1,
                                 final_text := append_content content_v (final_text st),
                                 messages := messages st
                                   @ [assistant_message content_v tool_calls] \<rparr>)
                       | Inr entries \<Rightarrow>
                           (case run_tool_calls env self entries
                                   (messages st @ [assistant_message content_v tool_calls])
                                   [] w1 of
                              (Some e, msgs, tool_results, w2) \<Rightarrow>
                                (Inl e,
                                 st\<lparr> world := w2,
                                      final_text := append_content content_v (final_text st),
                                      messages := msgs \<rparr>)
                            | (None, msgs, tool_results, w2) \<Rightarrow>
                                if i = max_iterations - 1 \<and> tool_results \<noteq> []
                                then (Inr True,
                                      final_answer env tools
                                        (st\<lparr> world := w2,
                                             final_text :=
                                               append_content content_v (final_text st),
                                             messages := msgs \<rparr>))
                                else (Inr True,
                                      st\<lparr> world := w2,
                                           final_text :=
                                             append_content content_v (final_text st),
                                           messages := msgs \<rparr>))))))"

text \<open>
  One pass through the body of \<open>for i in range(max_iterations)\<close> with its two handlers:
  a timeout or any other exception appends its text and breaks. The result says whether
  the loop goes on (\<open>True\<close>) or was left by \<open>break\<close> (\<open>False\<close>).
\<close>

definition iteration ::
  "'w agent_env \<Rightarrow> mcp_client \<Rightarrow> llm_tool list \<Rightarrow> nat \<Rightarrow> 'w loop_state \<Rightarrow> bool \<times> 'w loop_state"
where
  "iteration env self tools i st0 =
     (case iteration_body env self tools i
             (st0\<lparr> iterations := iterations st0 @ [i + 1], llm_calls := llm_calls st0 + 1 \<rparr>) of
        (Inl TimeoutError, st1) \<Rightarrow>
          (False, st1\<lparr> final_text := final_text st1
                         @ [JStr ([10] @ msg_llm_timeout_prefix @ str_nat (i + 1))] \<rparr>)
      | (Inl e, st1) \<Rightarrow>
          (False, st1\<lparr> final_text := final_text st1
                         @ [JStr ([10] @ msg_iteration_error_prefix @ str_nat (i + 1)
                                    @ ascii '': '' @ str_exn e)] \<rparr>)
      | (Inr go, st1) \<Rightarrow> (go, st1))"

text \<open>\<open>for i in range(max_iterations)\<close>, from the value \<open>i\<close> of the counter.\<close>

function iterate ::
  "'w agent_env \<Rightarrow> mcp_client \<Rightarrow> llm_tool list \<Rightarrow> nat \<Rightarrow> 'w loop_state \<Rightarrow> 'w loop_state"
where
  "iterate env self tools i st =
     (if i < max_iterations then
        (case iteration env self tools i st of
           (True, st1) \<Rightarrow> iterate env self tools (i + 1) st1
         | (False, st1) \<Rightarrow> st1)
      else st)"
  by pat_completeness auto
termination
  by (relation "measure (\<lambda>(env, self, tools, i, st). max_iterations - i)") auto

text \<open>
  \<open>result = final_text[len(final_text) - 1] if len(final_text) > 0 else "..."\<close>.
\<close>

definition select_result :: "json list \<Rightarrow> json" where
  "select_result ft =
     (if length ft > 0 then ft ! (length ft - 1) else JStr msg_empty_answer)"

text \<open>The conversation and the counters before the loop.\<close>

definition initial_state :: "pystr \<Rightarrow> pystr \<Rightarrow> 'w \<Rightarrow> 'w loop_state" where
  "initial_state system_message query w =
     \<lparr> messages = [\<lparr> msg_role = System, msg_content = JStr system_message,
                      msg_tool_calls = None, msg_tool_call_id = None \<rparr>,
                    \<lparr> msg_role = User, msg_content = JStr query,
                      msg_tool_calls = None, msg_tool_call_id = None \<rparr>],
       final_text = [], world = w, iterations = [], llm_calls = 0, final_calls = 0 \<rparr>"

text \<open>The state with which \<open>process_query\<close> ends when the set-up raises.\<close>

definition no_state :: "'w \<Rightarrow> 'w loop_state" where
  "no_state w =
     \<lparr> messages = [], final_text = [], world = w, iterations = [], llm_calls = 0,
       final_calls = 0 \<rparr>"

text \<open>
  The body of the outer \<open>try\<close> of \<open>process_query\<close>: the system message, the
  conversation, the tool list, the loop and the choice of the result.
\<close>

definition process_query_body ::
  "'w agent_env \<Rightarrow> mcp_client \<Rightarrow> pystr \<Rightarrow> 'w \<Rightarrow> (py_exn + json) \<times> 'w loop_state"
where
  "process_query_body env self query w =
     (case create_system_message env self of
        Inl e \<Rightarrow> (Inl e, no_state w)
      | Inr system_message \<Rightarrow>
          (let st = iterate env self (format_tools_for_llm self) 0
                      (initial_state system_message query w)
           in (Inr (select_result (final_text st)), st)))"

text \<open>
  \<open>process_query\<close>: the outer handler turns any exception into the text of a critical
  error. The value returned is a Python value: the fragment chosen, as it is.
\<close>

definition process_query ::
  "'w agent_env \<Rightarrow> mcp_client \<Rightarrow> pystr \<Rightarrow> 'w \<Rightarrow> (py_exn + json) \<times> 'w loop_state"
where
  "process_query env self query w =
     (case process_query_body env self query w of
        (r, st) \<Rightarrow> (try_except r (\<lambda>e. Inr (JStr (msg_critical_prefix @ str_exn e))), st))"

text \<open>
  The specification's wording of the result: the last non-empty fragment, or the
  sentinel when there is none.
\<close>

definition spec_result :: "json list \<Rightarrow> json" where
  "spec_result ft =
     (case rev (filter json_truthy ft) of [] \<Rightarrow> JStr msg_empty_answer | f # fs \<Rightarrow> f)"



section \<open>mcp\_client.py: cleanup\<close>

datatype teardown = CloseHttpClient | CloseMcpClient | CloseExitStack

text \<open>
  Calling a closing method on an attribute: a live object runs the call, \<open>None\<close> raises
  \<open>AttributeError\<close> before anything is called.
\<close>

definition call_on :: "slot \<Rightarrow> teardown \<Rightarrow> ('w \<Rightarrow> py_exn option \<times> 'w) \<Rightarrow> 'w
    \<Rightarrow> (py_exn + unit) \<times> 'w \<times> teardown list" where
  "call_on s step close_it w =
     (if s = Live then
        (case close_it w of
           (Some e, w1) \<Rightarrow> (Inl e, w1, [step])
         | (None, w1) \<Rightarrow> (Inr (), w1, [step]))
      else (Inl (attribute_error JNull (ascii ''aclose'')), w, []))"

text \<open>
  One step of \<open>cleanup\<close>: \<open>try: await ... except Exception: pass\<close> (the third step logs
  instead of passing).
\<close>

definition guarded_close :: "slot \<Rightarrow> teardown \<Rightarrow> ('w \<Rightarrow> py_exn option \<times> 'w) \<Rightarrow> 'w
    \<Rightarrow> (py_exn + unit) \<times> 'w \<times> teardown list" where
  "guarded_close s step close_it w =
     (case call_on s step close_it w of
        (r, w1, t) \<Rightarrow> (try_except r (\<lambda>e. Inr ()), w1, t))"

text \<open>
  \<open>cleanup\<close>: the HTTP client of the model, then \<open>self.mcp_client\<close> and
  \<open>self.exit_stack\<close> when the attribute exists; the \<open>finally\<close> of the third step sets
  \<open>exit_stack\<close> to \<open>None\<close>. The result is what leaves \<open>cleanup\<close>, with the client, the
  world and the closing calls that were made. An exception that leaves a step would end
  \<open>cleanup\<close> there.
\<close>

definition cleanup ::
  "'w agent_env \<Rightarrow> mcp_client \<Rightarrow> 'w \<Rightarrow> (py_exn + unit) \<times> mcp_client \<times> 'w \<times> teardown list"
where
  "cleanup env self w =
     (case guarded_close Live CloseHttpClient (http_client_aclose env) w of
        (Inl e, w1, t1) \<Rightarrow> (Inl e, self, w1, t1)
      | (Inr u1, w1, t1) \<Rightarrow>
          (case (if mcp_client_attr self \<noteq> Missing
                 then guarded_close (mcp_client_attr self) CloseMcpClient
                        (mcp_client_close env) w1
                 else (Inr (), w1, [])) of
             (Inl e, w2, t2) \<Rightarrow> (Inl e, self, w2, t1 @ t2)
           | (Inr u2, w2, t2) \<Rightarrow>
               if exit_stack_attr self \<noteq> Missing
               then (case guarded_close (exit_stack_attr self) CloseExitStack
                            (exit_stack_aclose env) w2 of
                       (r3, w3, t3) \<Rightarrow>
                         (r3, self\<lparr> exit_stack_attr := IsNone \<rparr>, w3, t1 @ t2 @ t3))
               else (Inr (), self, w2, t1 @ t2)))"

section \<open>Examples for process\_query and cleanup\<close>

definition example_tool :: tool where
  "example_tool =
     \<lparr> tool_name = ascii ''search'', tool_description = Some (ascii ''Search the web''),
       tool_inputSchema = JObj [] \<rparr>"

definition example_client :: mcp_client where
  "example_client =
     \<lparr> instructions = Some (ascii ''Help.''), available_tools = [example_tool],
       mcp_client_attr = Missing, exit_stack_attr = Live \<rparr>"

text \<open>A client whose only tool has no description.\<close>

definition undescribed_client :: mcp_client where
  "undescribed_client =
     \<lparr> instructions = Some (ascii ''Help.''),
       available_tools = [\<lparr> tool_name = ascii ''search'', tool_description = None,
                             tool_inputSchema = JObj [] \<rparr>],
       mcp_client_attr = Missing, exit_stack_attr = Live \<rparr>"

text \<open>
  Tool-call entries as the endpoint sends them: one that succeeds, one that times out,
  one whose arguments are not JSON, one whose tool raises, and one whose \<open>function\<close> is
  \<open>null\<close>.
\<close>

definition tc_search :: json where
  "tc_search =
     JObj [(ascii ''id'', JStr (ascii ''c1'')), (ascii ''type'', JStr (ascii ''function'')),
           (ascii ''function'', JObj [(ascii ''name'', JStr (ascii ''search''))])]"

definition tc_slow :: json where
  "tc_slow =
     JObj [(ascii ''id'', JStr (ascii ''c2'')), (ascii ''type'', JStr (ascii ''function'')),
           (ascii ''function'', JObj [(ascii ''name'', JStr (ascii ''slow'')),
                                      (ascii ''arguments'', JStr (ascii ''{}''))])]"

definition tc_badjson :: json where
  "tc_badjson =
     JObj [(ascii ''id'', JStr (ascii ''c3'')), (ascii ''type'', JStr (ascii ''function'')),
           (ascii ''function'', JObj [(ascii ''name'', JStr (ascii ''search'')),
                                      (ascii ''arguments'', JStr (ascii ''{''))])]"

definition tc_unknown :: json where
  "tc_unknown =
     JObj [(ascii ''id'', JStr (ascii ''c4'')), (ascii ''type'', JStr (ascii ''function'')),
           (ascii ''function'', JObj [(ascii ''name'', JStr (ascii ''other''))])]"

definition tc_null_function :: json where
  "tc_null_function =
     JObj [(ascii ''id'', JStr (ascii ''c5'')), (ascii ''type'', JStr (ascii ''function'')),
           (ascii ''function'', JNull)]"

text \<open>
  An example world, numbered by the model calls made. From world 0 the model asks for the
  four good tool calls and then answers; at world 50 the model call times out; at world
  60 the reply has a list as content and no tool calls; at world 70 the reply asks for
  three tool calls, the second with a \<open>null\<close> function; at world 80 the reply is
  \<open>null\<close>; from world 100 on the model asks
  for a tool call every time and gives a summary at its eleventh call; elsewhere below
  100 the model call raises. Closing the HTTP tool client and the exit stack raises.
\<close>

definition example_agent_env :: "nat agent_env" where
  "example_agent_env =
     \<lparr> json_loads = (\<lambda>s. if s = ascii ''{}'' then Inr (JObj [])
                           else Inl (Error (ascii ''Expecting value''))),
       py_repr = (\<lambda>v. ascii ''repr''),
       mcp_call_tool = (\<lambda>w name_v args. (Inl (Error (ascii ''no HTTP backend'')), w)),
       session_call_tool = (\<lambda>w name_v args.
          (if name_v = JStr (ascii ''search'')
           then Inr [TextContent (ascii ''r1''), OtherContent, TextContent (ascii ''r2'')]
           else if name_v = JStr (ascii ''slow'') then Inl TimeoutError
           else Inl (Error (ascii ''unknown tool'')), w)),
       call_llm = (\<lambda>w msgs tools.
          (if w = 0
           then Inr (JObj [(ascii ''role'', JStr (ascii ''assistant'')),
                           (ascii ''content'', JStr (ascii ''looking'')),
                           (ascii ''tool_calls'',
                              JArr [tc_search, tc_slow, tc_badjson, tc_unknown])])
           else if w = 1 then Inr (JObj [(ascii ''content'', JStr (ascii ''done''))])
           else if w = 50 then Inl TimeoutError
           else if w = 60
           then Inr (JObj [(ascii ''content'',
                              JArr [JObj [(ascii ''type'', JStr (ascii ''text'')),
                                          (ascii ''text'', JStr (ascii ''hi''))]])])
           else if w = 70
           then Inr (JObj [(ascii ''content'', JNull),
                           (ascii ''tool_calls'',
                              JArr [tc_search, tc_null_function, tc_search])])
           else if w = 80 then Inr JNull
           else if w < 100 then Inl (Error (ascii ''boom''))
           else Inr (JObj [(ascii ''content'',
                              (if w = 110 then JStr (ascii ''summary'') else JNull)),
                           (ascii ''tool_calls'', JArr [tc_search])]), w + 1)),
       py_repr_tools = (\<lambda>descs. ascii ''[...]''),
       http_client_aclose = (\<lambda>w. (None, w)),
       mcp_client_close = (\<lambda>w. (Some (Error (ascii ''closed'')), w)),
       exit_stack_aclose = (\<lambda>w. (Some (Error (ascii ''cancel scope'')), w)) \<rparr>"


section \<open>Properties of optimize\_results\<close>

lemma bound_gt_case: "bound_gt hi n = (case hi of Inf \<Rightarrow> True | Fin m \<Rightarrow> n < m)"
  by (cases hi) simp_all

text \<open>
  C6. For every list of records and every \<open>min_length\<close> and \<open>max_length\<close>,
  \<open>optimize_results\<close> returns exactly the records whose content is not empty and whose
  content length lies strictly inside the open interval \<open>(min_length, max_length)\<close>, in
  their input order and unchanged; with \<open>min_length = 30\<close> and the default upper bound a
  record is dropped exactly when its content is empty or at most 30 code points long.
\<close>

theorem optimize_results_exact:
  "optimize_results rs lo hi = filter (spec_survives lo hi) rs
   \<and> subseq (optimize_results rs lo hi) rs
   \<and> set (optimize_results rs 30 Inf)
       = {r \<in> set rs. \<not> (content r = [] \<or> length (content r) \<le> 30)}"
proof (intro conjI)
  have same: "(\<lambda>item. content item \<noteq> [] \<and> bound_gt hi (int (length (content item)))
                 \<and> int (length (content item)) > lo) = spec_survives lo hi"
    by (rule ext) (auto simp: spec_survives_def bound_gt_case)
  show "optimize_results rs lo hi = filter (spec_survives lo hi) rs"
    unfolding optimize_results_def same ..
  show "subseq (optimize_results rs lo hi) rs"
    unfolding optimize_results_def by (rule subseq_filter_left)
  show "set (optimize_results rs 30 Inf)
          = {r \<in> set rs. \<not> (content r = [] \<or> length (content r) \<le> 30)}"
    unfolding optimize_results_def by auto
qed

section \<open>Properties of the result parser\<close>

lemma process_docs_acc: "process_docs body docs acc = acc @ doc_successes body docs"
  by (induction docs arbitrary: acc)
     (auto simp: doc_successes_def List.map_filter_simps split: sum.splits)

lemma doc_successes_append:
  "doc_successes body (xs @ ys) = doc_successes body xs @ doc_successes body ys"
  by (simp add: doc_successes_def List.map_filter_def)

lemma doc_successes_total: "doc_successes (\<lambda>d. Inr (f d)) docs = map f docs"
  by (induction docs) (simp_all add: doc_successes_def List.map_filter_simps)

lemma et_find_children: "et_find t p = Some e \<Longrightarrow> el_children p \<noteq> []"
  by (auto simp: et_find_def)

lemma doc_extended_text_eq:
  "doc_extended_text d =
     (case doc_ext_elem d of None \<Rightarrow> [] | Some e \<Rightarrow> get_element_full_text (Some e))"
  by (auto simp: doc_extended_text_def doc_ext_elem_def Let_def
           dest: et_find_children split: option.splits)

text \<open>
  C5. For every input string the parser returns a list and raises nothing: when
  \<open>ET.fromstring\<close> raises (malformed input, or anything else) the result is the empty
  list; otherwise it is the list of the records of the documents whose extraction does
  not raise, in document order, so a document whose extraction raises is skipped and the
  documents after it are still parsed. With the extraction of the source no document is
  skipped.
\<close>

theorem parse_search_results_never_raises:
  "(\<exists>rs. parse_search_results_with body fromstring s = Inr rs)
   \<and> (\<forall>e. fromstring s = Inl e \<longrightarrow> parse_search_results_with body fromstring s = Inr [])
   \<and> (\<forall>root. fromstring s = Inr root \<longrightarrow>
         parse_search_results_with body fromstring s
           = Inr (doc_successes body (et_iter (ascii ''doc'') root)))
   \<and> (\<forall>e. body d = Inl e \<longrightarrow>
         process_docs body (before @ d # after) acc
           = acc @ doc_successes body before @ doc_successes body after)
   \<and> parse_search_results fromstring s
       = Inr (case fromstring s of Inl e \<Rightarrow> []
              | Inr root \<Rightarrow> map extract_doc (et_iter (ascii ''doc'') root))"
proof (intro conjI allI impI)
  show "\<exists>rs. parse_search_results_with body fromstring s = Inr rs"
    by (cases "fromstring s")
       (auto simp: parse_search_results_with_def try_except_def split: py_exn.splits)
next
  fix e assume "fromstring s = Inl e"
  then show "parse_search_results_with body fromstring s = Inr []"
    by (cases e) (simp_all add: parse_search_results_with_def try_except_def)
next
  fix root assume "fromstring s = Inr root"
  then show "parse_search_results_with body fromstring s
               = Inr (doc_successes body (et_iter (ascii ''doc'') root))"
    by (simp add: parse_search_results_with_def try_except_def process_docs_acc)
next
  fix e assume "body d = Inl e"
  then have "doc_successes body [d] = []"
    by (simp add: doc_successes_def List.map_filter_simps)
  then have "doc_successes body (before @ [d] @ after)
               = doc_successes body before @ doc_successes body after"
    by (simp only: doc_successes_append append_Nil)
  then show "process_docs body (before @ d # after) acc
               = acc @ doc_successes body before @ doc_successes body after"
    by (simp add: process_docs_acc)
next
  show "parse_search_results fromstring s
          = Inr (case fromstring s of Inl e \<Rightarrow> []
                 | Inr root \<Rightarrow> map extract_doc (et_iter (ascii ''doc'') root))"
    by (cases "fromstring s")
       (auto simp: parse_search_results_def parse_search_results_with_def try_except_def
                   process_docs_acc doc_successes_total split: py_exn.splits)
qed

theorem parse_search_results_witness:
  "parse_search_results_with example_body example_fromstring [] = Inr []
   \<and> parse_search_results_with example_body example_fromstring (ascii ''<yandexsearch/>'')
       = Inr [extract_doc example_doc, extract_doc example_doc]
   \<and> process_docs example_body [example_doc, empty_doc, example_doc] []
       = [extract_doc example_doc, extract_doc example_doc]"
  using parse_search_results_never_raises
          [of example_body example_fromstring "[]" empty_doc "[]" "[]" "[]"]
        parse_search_results_never_raises
          [of example_body example_fromstring "ascii ''<yandexsearch/>''" empty_doc
              "[example_doc]" "[example_doc]" "[]"]
  by (simp add: example_fromstring_def example_body_def example_root_def empty_doc_def
        example_doc_def doc_successes_def List.map_filter_simps ascii_def)

section \<open>Properties of the content rule\<close>

lemma py_join_nonempty:
  "parts \<noteq> [] \<Longrightarrow> \<forall>p \<in> set parts. p \<noteq> [] \<Longrightarrow> py_join sep parts \<noteq> []"
  by (induction sep parts rule: py_join.induct) auto

lemma doc_passages_nonempty: "\<forall>p \<in> set (doc_passages d). p \<noteq> []"
  by (simp add: doc_passages_def)

text \<open>
  C7, as stated, fails: the claim gives the extended text priority whenever the property
  is present. In \<open>example_doc\<close> the property is present with an empty text and the
  document has the passage \<open>p\<close>; the claim's rule yields the empty content, the parser
  yields \<open>p\<close>.
\<close>

theorem content_priority_counterexample:
  "doc_ext_elem example_doc \<noteq> None
   \<and> content (extract_doc example_doc) = ascii ''p''
   \<and> spec_content example_doc = []
   \<and> content (extract_doc example_doc) \<noteq> spec_content example_doc"
  by (simp add: example_doc_def extract_doc_def doc_extended_text_def doc_passages_def
        doc_ext_elem_def spec_content_def et_find_def get_element_full_text_def
        clean_text_def py_strip_def is_space_def ascii_def Let_def)

text \<open>
  C7, amended. The content of a parsed document is the cleaned first non-empty text
  among: the stripped text of the \<open>extended-text\<close> property (empty when the property is
  absent), the non-empty stripped passage texts joined by single spaces, and the cleaned
  headline.
\<close>

theorem content_priority:
  "content (extract_doc d) =
     clean_text
       (let ext = (case doc_ext_elem d of None \<Rightarrow> []
                   | Some e \<Rightarrow> get_element_full_text (Some e));
            joined = py_join (ascii '' '') (doc_passages d);
            hl = clean_text (get_element_full_text (et_find (ascii ''headline'') d))
        in if ext \<noteq> [] then ext else if joined \<noteq> [] then joined else hl)"
  by (simp add: extract_doc_def Let_def doc_extended_text_eq)

text \<open>
  The parser and the specification's wording agree on every document whose extended
  text is absent or not empty.
\<close>

lemma content_agrees_with_spec:
  assumes "case doc_ext_elem d of None \<Rightarrow> True
           | Some e \<Rightarrow> get_element_full_text (Some e) \<noteq> []"
  shows "content (extract_doc d) = spec_content d"
proof (cases "doc_ext_elem d")
  case None
  show ?thesis
  proof (cases "doc_passages d = []")
    case True
    with None show ?thesis
      by (simp add: extract_doc_def doc_extended_text_eq spec_content_def Let_def)
  next
    case False
    then have "py_join (ascii '' '') (doc_passages d) \<noteq> []"
      using py_join_nonempty doc_passages_nonempty by blast
    with None False show ?thesis
      by (simp add: extract_doc_def doc_extended_text_eq spec_content_def Let_def)
  qed
next
  case (Some e)
  with assms show ?thesis
    by (simp add: extract_doc_def doc_extended_text_eq spec_content_def Let_def)
qed

section \<open>Properties of the polling loop\<close>




lemma poll_trace_unfold:
  "poll_trace op_id k stopped =
     (if k = 0 then (if stopped then [Get op_id] else [])
      else Get op_id # Sleep 1 # poll_trace op_id (k - 1) stopped)"
  by (cases k) (simp_all add: poll_trace_def)




section \<open>Properties of search\<close>

text \<open>
  C10. For every query, page list and state of the network, \<open>search\<close> raises nothing:
  it returns a list. Whenever an exception leaves the submit, poll and parse pipeline the
  list is empty; in particular when the HTTP session cannot be opened. Otherwise it
  returns what the pipeline returned.
\<close>

theorem search_never_raises:
  "(\<exists>rs. fst (search env query_text pages w) = Inr rs)
   \<and> (\<forall>e. fst (search_body env query_text pages w) = Inl e \<longrightarrow>
         fst (search env query_text pages w) = Inr [])
   \<and> (\<forall>rs. fst (search_body env query_text pages w) = Inr rs \<longrightarrow>
         fst (search env query_text pages w) = Inr rs)
   \<and> (\<forall>e w1. open_session env w = (Some e, w1) \<longrightarrow>
         search env query_text pages w = (Inr [], w1, [OpenSession]))"
proof -
  obtain r w1 evs where b: "search_body env query_text pages w = (r, w1, evs)"
    by (cases "search_body env query_text pages w")
  have s: "search env query_text pages w = (try_except r (\<lambda>e. Inr []), w1, evs)"
    by (simp add: search_def b)
  show ?thesis
  proof (intro conjI allI impI)
    show "\<exists>rs. fst (search env query_text pages w) = Inr rs"
      by (cases r) (simp_all add: s try_except_def)
  next
    fix e assume "fst (search_body env query_text pages w) = Inl e"
    then show "fst (search env query_text pages w) = Inr []"
      by (simp add: s b try_except_def)
  next
    fix rs assume "fst (search_body env query_text pages w) = Inr rs"
    then show "fst (search env query_text pages w) = Inr rs"
      by (simp add: s b try_except_def)
  next
    fix e w1 assume "open_session env w = (Some e, w1)"
    then show "search env query_text pages w = (Inr [], w1, [OpenSession])"
      by (simp add: search_def search_body_def try_except_def)
  qed
qed

theorem search_witness:
  "search example_search_env (ascii ''q'') [0] 99 = (Inr [], 99, [OpenSession])
   \<and> fst (search_body example_search_env (ascii ''q'') [0] 99) = Inl (Error (ascii ''cannot connect''))
   \<and> fst (search example_search_env (ascii ''q'') [1, 0] 0)
       = Inr [extract_doc example_doc, extract_doc empty_doc, extract_doc example_doc]
   \<and> snd (snd (search example_search_env (ascii ''q'') [1, 0] 0))
       = [OpenSession, Post 1, Post 0] @ poll_trace (ascii ''ok'') 2 True @ [CloseSession]"
  using search_never_raises [of example_search_env "ascii ''q''" "[0]" 99]
        search_never_raises [of example_search_env "ascii ''q''" "[1, 0]" 0]
  by (simp add: search_def search_body_def search_session_def try_except_def
        example_search_env_def decode_payload_def poll_trace_unfold
        parse_search_results_def parse_search_results_with_def
        example_fromstring_def example_root_def example_doc_def empty_doc_def ascii_def)

section \<open>Properties of the agent loop\<close>





lemma final_answer_counters:
  "iterations (final_answer env tools st) = iterations st"
  "llm_calls (final_answer env tools st) = llm_calls st"
  "final_calls (final_answer env tools st) = final_calls st + 1"
  by (auto simp: final_answer_def split: prod.splits sum.splits py_exn.splits)

lemma final_answer_frags:
  "\<forall>f \<in> set (final_text st). json_truthy f \<and> P f \<Longrightarrow> (\<And>s. P (JStr s)) \<Longrightarrow>
   \<forall>f \<in> set (final_text (final_answer env tools st)). json_truthy f \<and> P f"
  by (auto simp: final_answer_def msg_final_answer_prefix_def msg_final_timeout_def
           split: prod.splits sum.splits py_exn.splits)


lemma append_content_frags:
  "\<forall>f \<in> set ft. json_truthy f \<and> P f \<Longrightarrow> (json_truthy c \<Longrightarrow> P c) \<Longrightarrow>
   \<forall>f \<in> set (append_content c ft). json_truthy f \<and> P f"
  by (auto simp: append_content_def)

lemma iteration_body_counters:
  "iterations (snd (iteration_body env self tools i st)) = iterations st"
  "llm_calls (snd (iteration_body env self tools i st)) = llm_calls st"
  by (auto simp: iteration_body_def final_answer_counters
           split: prod.splits sum.splits option.splits)

lemma iteration_body_final_calls:
  "final_calls (snd (iteration_body env self tools i st)) = final_calls st
   \<or> (i = max_iterations - 1
       \<and> final_calls (snd (iteration_body env self tools i st)) = final_calls st + 1)"
  by (auto simp: iteration_body_def final_answer_counters
           split: prod.splits sum.splits option.splits)

lemma iteration_body_frags:
  assumes inv: "\<forall>f \<in> set (final_text st). json_truthy f \<and> P f"
    and str: "\<And>s. P (JStr s)"
    and env: "\<And>reply w1 v. call_llm env (world st) (messages st) tools = (Inr reply, w1)
                \<Longrightarrow> py_get reply (ascii ''content'') (JStr []) = Inr v
                \<Longrightarrow> json_truthy v \<Longrightarrow> P v"
  shows "\<forall>f \<in> set (final_text (snd (iteration_body env self tools i st))). json_truthy f \<and> P f"
proof -
  obtain out w1 where c: "call_llm env (world st) (messages st) tools = (out, w1)"
    by (cases "call_llm env (world st) (messages st) tools")
  show ?thesis
  proof (cases out)
    case (Inl e)
    with c inv show ?thesis by (simp add: iteration_body_def)
  next
    case (Inr reply)
    show ?thesis
    proof (cases "py_get reply (ascii ''tool_calls'') (JArr [])")
      case (Inl e)
      with c Inr inv show ?thesis by (simp add: iteration_body_def)
    next
      case tc: (Inr tool_calls)
      show ?thesis
      proof (cases "py_get reply (ascii ''content'') (JStr [])")
        case (Inl e)
        with c Inr tc inv show ?thesis by (simp add: iteration_body_def)
      next
        case cv: (Inr content_v)
        have ft: "\<forall>f \<in> set (append_content content_v (final_text st)). json_truthy f \<and> P f"
          using inv env[OF c[unfolded Inr] cv] by (rule append_content_frags)
        define st2 where "st2 = (\<lambda>w2 msgs. st\<lparr> world := w2,
              final_text := append_content content_v (final_text st), messages := msgs \<rparr>)"
        have fa: "\<forall>f \<in> set (final_text (final_answer env tools (st2 w2 msgs))). json_truthy f \<and> P f"
          for w2 msgs
          by (rule final_answer_frags) (use ft str in \<open>simp_all add: st2_def\<close>)
        show ?thesis
          using c Inr tc cv ft fa
          by (auto simp: iteration_body_def st2_def
                   split: prod.splits sum.splits option.splits)
      qed
    qed
  qed
qed

lemma iteration_counters:
  "iterations (snd (iteration env self tools i st)) = iterations st @ [i + 1]"
  "llm_calls (snd (iteration env self tools i st)) = llm_calls st + 1"
proof -
  let ?st = "st\<lparr> iterations := iterations st @ [i + 1], llm_calls := llm_calls st + 1 \<rparr>"
  obtain out st1 where b: "iteration_body env self tools i ?st = (out, st1)"
    by (cases "iteration_body env self tools i ?st")
  have "iterations st1 = iterations st @ [i + 1]" "llm_calls st1 = llm_calls st + 1"
    using iteration_body_counters[of env self tools i ?st] b by simp_all
  then show "iterations (snd (iteration env self tools i st)) = iterations st @ [i + 1]"
    "llm_calls (snd (iteration env self tools i st)) = llm_calls st + 1"
    using b by (auto simp: iteration_def split: sum.splits py_exn.splits)
qed

lemma iteration_final_calls:
  "final_calls (snd (iteration env self tools i st)) = final_calls st
   \<or> (i = max_iterations - 1 \<and> final_calls (snd (iteration env self tools i st)) = final_calls st + 1)"
proof -
  let ?st = "st\<lparr> iterations := iterations st @ [i + 1], llm_calls := llm_calls st + 1 \<rparr>"
  obtain out st1 where b: "iteration_body env self tools i ?st = (out, st1)"
    by (cases "iteration_body env self tools i ?st")
  have "final_calls st1 = final_calls st
     \<or> (i = max_iterations - 1 \<and> final_calls st1 = final_calls st + 1)"
    using iteration_body_final_calls[of env self tools i ?st] b by simp
  then show ?thesis
    using b by (auto simp: iteration_def split: sum.splits py_exn.splits)
qed

lemma iteration_frags:
  assumes inv: "\<forall>f \<in> set (final_text st). json_truthy f \<and> P f"
    and str: "\<And>s. P (JStr s)"
    and env: "\<And>reply w1 v. call_llm env (world st) (messages st) tools = (Inr reply, w1)
                \<Longrightarrow> py_get reply (ascii ''content'') (JStr []) = Inr v
                \<Longrightarrow> json_truthy v \<Longrightarrow> P v"
  shows "\<forall>f \<in> set (final_text (snd (iteration env self tools i st))). json_truthy f \<and> P f"
proof -
  let ?st = "st\<lparr> iterations := iterations st @ [i + 1], llm_calls := llm_calls st + 1 \<rparr>"
  obtain out st1 where b: "iteration_body env self tools i ?st = (out, st1)"
    by (cases "iteration_body env self tools i ?st")
  have "\<forall>f \<in> set (final_text (snd (iteration_body env self tools i ?st))). json_truthy f \<and> P f"
    by (rule iteration_body_frags) (use inv str env in \<open>simp_all\<close>)
  then have "\<forall>f \<in> set (final_text st1). json_truthy f \<and> P f" using b by simp
  then show ?thesis
    using b str
    by (auto simp: iteration_def msg_llm_timeout_prefix_def msg_iteration_error_prefix_def
             split: sum.splits py_exn.splits)
qed

lemma iterate_frags:
  "\<forall>s. P (JStr s) \<Longrightarrow>
   \<forall>w msgs reply w1 v. call_llm env w msgs tools = (Inr reply, w1)
       \<longrightarrow> py_get reply (ascii ''content'') (JStr []) = Inr v \<longrightarrow> json_truthy v \<longrightarrow> P v \<Longrightarrow>
   \<forall>f \<in> set (final_text st). json_truthy f \<and> P f \<Longrightarrow>
   \<forall>f \<in> set (final_text (iterate env self tools i st)). json_truthy f \<and> P f"
proof (induction env self tools i st rule: iterate.induct)
  case (1 env self tools i st)
  show ?case
  proof (cases "i < max_iterations")
    case False
    then show ?thesis using "1.prems" by (simp add: iterate.simps[of env self tools i st])
  next
    case True
    obtain go st1 where it: "iteration env self tools i st = (go, st1)"
      by (cases "iteration env self tools i st")
    have "\<forall>f \<in> set (final_text (snd (iteration env self tools i st))). json_truthy f \<and> P f"
    proof (rule iteration_frags[OF "1.prems"(3)])
      show "P (JStr s)" for s using "1.prems"(1) by simp
      show "P v" if "call_llm env (world st) (messages st) tools = (Inr reply, w1)"
        "py_get reply (ascii ''content'') (JStr []) = Inr v" "json_truthy v" for reply w1 v
        using "1.prems"(2) that by blast
    qed
    then have fr: "\<forall>f \<in> set (final_text st1). json_truthy f \<and> P f" using it by simp
    show ?thesis
    proof (cases go)
      case True
      then have gT: "go = True" by simp
      from "1.IH"[OF \<open>i < max_iterations\<close> it[symmetric] gT "1.prems"(1) "1.prems"(2) fr]
      show ?thesis using \<open>i < max_iterations\<close> it True
        by (simp add: iterate.simps[of env self tools i st])
    next
      case False
      with \<open>i < max_iterations\<close> it fr show ?thesis
        by (simp add: iterate.simps[of env self tools i st])
    qed
  qed
qed

lemma iterate_counters:
  "i \<le> max_iterations \<Longrightarrow> iterations st = map Suc [0..<i] \<Longrightarrow> llm_calls st = i
   \<Longrightarrow> final_calls st = 0 \<or> (i = max_iterations \<and> final_calls st = 1)
   \<Longrightarrow> \<exists>n. n \<le> max_iterations
         \<and> iterations (iterate env self tools i st) = map Suc [0..<n]
         \<and> llm_calls (iterate env self tools i st) = n
         \<and> final_calls (iterate env self tools i st) \<le> 1"
proof (induction env self tools i st rule: iterate.induct)
  case (1 env self tools i st)
  show ?case
  proof (cases "i < max_iterations")
    case False
    with "1.prems" show ?thesis
      by (auto simp add: iterate.simps[of env self tools i st] intro!: exI[of _ i])
  next
    case True
    note lt = True
    obtain go st1 where it: "iteration env self tools i st = (go, st1)"
      by (cases "iteration env self tools i st")
    have its: "iterations st1 = map Suc [0..<i + 1]"
      using iteration_counters(1)[of env self tools i st] it "1.prems"(2) by simp
    have calls: "llm_calls st1 = i + 1"
      using iteration_counters(2)[of env self tools i st] it "1.prems"(3) by simp
    have fc0: "final_calls st = 0" using "1.prems"(4) lt by auto
    have fin: "final_calls st1 = 0 \<or> (i + 1 = max_iterations \<and> final_calls st1 = 1)"
      using iteration_final_calls[of env self tools i st] it fc0 lt by auto
    show ?thesis
    proof (cases go)
      case True
      then have gT: "go = True" by simp
      have "i + 1 \<le> max_iterations" using lt by simp
      from "1.IH"[OF lt it[symmetric] gT this its calls fin]
      show ?thesis using lt it True by (simp add: iterate.simps[of env self tools i st])
    next
      case False
      have "i + 1 \<le> max_iterations" using lt by simp
      moreover have "final_calls st1 \<le> 1" using fin by auto
      ultimately show ?thesis using lt it False its calls
        by (auto simp add: iterate.simps[of env self tools i st] intro!: exI[of _ "i + 1"])
    qed
  qed
qed


lemma select_result_spec:
  "\<forall>f \<in> set ft. json_truthy f \<Longrightarrow> select_result ft = spec_result ft"
  by (cases ft rule: rev_cases)
     (auto simp: select_result_def spec_result_def filter_id_conv nth_append)

lemma process_query_setup_ok:
  "create_system_message env self = Inr sm \<Longrightarrow>
     process_query env self query w
       = (Inr (select_result (final_text (iterate env self (format_tools_for_llm self) 0
                                            (initial_state sm query w)))),
          iterate env self (format_tools_for_llm self) 0 (initial_state sm query w))"
  by (simp add: process_query_def process_query_body_def try_except_def Let_def)

lemma process_query_setup_fails:
  "create_system_message env self = Inl e \<Longrightarrow>
     process_query env self query w
       = (Inr (JStr (msg_critical_prefix @ str_exn e)), no_state w)"
  by (simp add: process_query_def process_query_body_def try_except_def)

lemma initial_state_fields:
  "final_text (initial_state sm q w) = []"
  "iterations (initial_state sm q w) = []"
  "llm_calls (initial_state sm q w) = 0"
  "final_calls (initial_state sm q w) = 0"
  by (simp_all add: initial_state_def)

text \<open>
  C3. For every query the main loop of \<open>process_query\<close> runs at most 10 iterations: the
  values of the counter announced are \<open>1, 2, ..., n\<close> for some \<open>n \<le> 10\<close>, each of them
  in \<open>[1, 10]\<close>, with exactly one model call per iteration; beyond them there is at most
  the one call for the final answer, made in the tenth iteration.
\<close>

theorem iterations_bounded:
  "(\<exists>n. n \<le> 10 \<and> iterations (snd (process_query env self query w)) = map Suc [0..<n])
   \<and> length (iterations (snd (process_query env self query w))) \<le> 10
   \<and> (\<forall>k \<in> set (iterations (snd (process_query env self query w))). 1 \<le> k \<and> k \<le> 10)
   \<and> llm_calls (snd (process_query env self query w))
       = length (iterations (snd (process_query env self query w)))
   \<and> final_calls (snd (process_query env self query w)) \<le> 1"
proof (cases "create_system_message env self")
  case (Inl e)
  then show ?thesis
    by (simp add: process_query_setup_fails no_state_def)
next
  case (Inr sm)
  let ?st = "iterate env self (format_tools_for_llm self) 0 (initial_state sm query w)"
  have pq: "snd (process_query env self query w) = ?st"
    using Inr by (simp add: process_query_setup_ok)
  from iterate_counters[of 0 "initial_state sm query w" env self "format_tools_for_llm self"]
  obtain n where n: "n \<le> max_iterations" "iterations ?st = map Suc [0..<n]"
    "llm_calls ?st = n" "final_calls ?st \<le> 1"
    by (auto simp: initial_state_fields)
  from n(1) have n10: "n \<le> 10" by (simp add: max_iterations_def)
  show ?thesis
  proof (intro conjI)
    show "\<exists>n. n \<le> 10 \<and> iterations (snd (process_query env self query w)) = map Suc [0..<n]"
      using n10 n(2) pq by auto
    show "length (iterations (snd (process_query env self query w))) \<le> 10"
      using n10 n(2) pq by simp
    show "\<forall>k \<in> set (iterations (snd (process_query env self query w))). 1 \<le> k \<and> k \<le> 10"
      using n10 n(2) pq by auto
    show "llm_calls (snd (process_query env self query w))
       = length (iterations (snd (process_query env self query w)))"
      using n(2,3) pq by simp
    show "final_calls (snd (process_query env self query w)) \<le> 1"
      using n(4) pq by simp
  qed
qed

theorem iterations_bounded_witness:
  "iterations (snd (process_query example_agent_env example_client (ascii ''q'') 100))
     = [1, 2, 3, 4, 5, 6, 7, 8, 9, 10]
   \<and> final_calls (snd (process_query example_agent_env example_client (ascii ''q'') 100)) = 1
   \<and> world (snd (process_query example_agent_env example_client (ascii ''q'') 100)) = 111"
  using iterations_bounded [of example_agent_env example_client "ascii ''q''" 100]
  by (simp add: process_query_def process_query_body_def try_except_def Let_def
        create_system_message_def format_tools_for_llm_def
        iteration_def iteration_body_def final_answer_def append_content_def
        read_tool_call_def py_json_loads_def
        initial_state_def example_agent_env_def example_client_def example_tool_def
        run_tool_def tc_search_def max_iterations_def ascii_def)













text \<open>
  C4, as stated, fails: when the set-up raises, no fragment was collected and the value
  returned is not the sentinel. The client's only tool has no description, so building
  the system message raises and \<open>process_query\<close> returns the text of a critical error.
\<close>

theorem result_selection_counterexample:
  "final_text (snd (process_query example_agent_env undescribed_client (ascii ''q'') 0)) = []
   \<and> fst (process_query example_agent_env undescribed_client (ascii ''q'') 0)
       = Inr (JStr (msg_critical_prefix @ str_exn re_sub_none_error))
   \<and> fst (process_query example_agent_env undescribed_client (ascii ''q'') 0)
       \<noteq> Inr (JStr msg_empty_answer)
   \<and> fst (process_query example_agent_env undescribed_client (ascii ''q'') 0)
       \<noteq> Inr (spec_result
                (final_text (snd (process_query example_agent_env undescribed_client
                                    (ascii ''q'') 0))))"
  by (simp add: process_query_def process_query_body_def try_except_def
        create_system_message_def undescribed_client_def no_state_def spec_result_def
        msg_critical_prefix_def msg_empty_answer_def)

text \<open>
  C4, amended. Whenever the set-up of \<open>process_query\<close> raises nothing, the value returned
  is the last fragment collected during the loop, every fragment being non-empty, so it
  is the last non-empty fragment and not a concatenation; when no fragment was
  collected it is the sentinel. When the set-up raises, no fragment is collected and the
  value returned is the text of the critical error.
\<close>

theorem result_selection:
  "(\<forall>sm. create_system_message env self = Inr sm \<longrightarrow>
        fst (process_query env self query w)
          = Inr (select_result (final_text (snd (process_query env self query w))))
        \<and> select_result (final_text (snd (process_query env self query w)))
            = spec_result (final_text (snd (process_query env self query w)))
        \<and> (\<forall>f \<in> set (final_text (snd (process_query env self query w))). json_truthy f)
        \<and> (final_text (snd (process_query env self query w)) = []
             \<longrightarrow> fst (process_query env self query w) = Inr (JStr msg_empty_answer))
        \<and> (final_text (snd (process_query env self query w)) \<noteq> []
             \<longrightarrow> fst (process_query env self query w)
                   = Inr (last (final_text (snd (process_query env self query w))))))
   \<and> (\<forall>e. create_system_message env self = Inl e \<longrightarrow>
        fst (process_query env self query w) = Inr (JStr (msg_critical_prefix @ str_exn e))
        \<and> final_text (snd (process_query env self query w)) = [])"
proof (intro conjI allI impI)
  fix sm assume ok: "create_system_message env self = Inr sm"
  let ?st = "iterate env self (format_tools_for_llm self) 0 (initial_state sm query w)"
  have pq: "process_query env self query w = (Inr (select_result (final_text ?st)), ?st)"
    using ok by (rule process_query_setup_ok)
  have "\<forall>f \<in> set (final_text ?st). json_truthy f \<and> True"
    by (rule iterate_frags) (simp_all add: initial_state_fields)
  then have fr: "\<forall>f \<in> set (final_text ?st). json_truthy f" by simp
  show "fst (process_query env self query w)
          = Inr (select_result (final_text (snd (process_query env self query w))))"
    by (simp add: pq)
  show "select_result (final_text (snd (process_query env self query w)))
            = spec_result (final_text (snd (process_query env self query w)))"
    using fr by (simp add: pq select_result_spec)
  show "\<forall>f \<in> set (final_text (snd (process_query env self query w))). json_truthy f"
    using fr by (simp add: pq)
  show "fst (process_query env self query w) = Inr (JStr msg_empty_answer)"
    if "final_text (snd (process_query env self query w)) = []"
    using that by (simp add: pq select_result_def)
  show "fst (process_query env self query w)
          = Inr (last (final_text (snd (process_query env self query w))))"
    if "final_text (snd (process_query env self query w)) \<noteq> []"
    using that by (simp add: pq select_result_def last_conv_nth)
next
  fix e assume bad: "create_system_message env self = Inl e"
  show "fst (process_query env self query w) = Inr (JStr (msg_critical_prefix @ str_exn e))"
    using bad by (simp add: process_query_setup_fails)
  show "final_text (snd (process_query env self query w)) = []"
    using bad by (simp add: process_query_setup_fails no_state_def)
qed

theorem result_selection_witness:
  "fst (process_query example_agent_env example_client (ascii ''q'') 0)
     = Inr (JStr (ascii ''done''))
   \<and> final_text (snd (process_query example_agent_env example_client (ascii ''q'') 0))
       = [JStr (ascii ''looking''), JStr (ascii ''done'')]
   \<and> fst (process_query example_agent_env undescribed_client (ascii ''q'') 0)
       = Inr (JStr (msg_critical_prefix @ str_exn re_sub_none_error))"
  using result_selection [of example_agent_env example_client "ascii ''q''" 0]
        result_selection [of example_agent_env undescribed_client "ascii ''q''" 0]
  by (simp add: process_query_def process_query_body_def try_except_def Let_def
        create_system_message_def format_tools_for_llm_def select_result_def
        iteration_def iteration_body_def append_content_def no_state_def
        initial_state_def example_agent_env_def example_client_def example_tool_def
        undescribed_client_def read_tool_call_def py_json_loads_def
        run_tool_def tc_search_def tc_slow_def tc_badjson_def tc_unknown_def
        max_iterations_def ascii_def)

section \<open>Properties of cleanup\<close>

lemma guarded_close_ok:
  "fst (guarded_close s step f w) = Inr ()"
  by (auto simp: guarded_close_def call_on_def try_except_def split: prod.splits option.splits)

lemma guarded_close_steps:
  "snd (snd (guarded_close s step f w)) = (if s = Live then [step] else [])"
  by (auto simp: guarded_close_def call_on_def split: prod.splits option.splits)

lemma cleanup_once:
  "fst (cleanup env self w) = Inr ()
   \<and> fst (snd (cleanup env self w))
       = (if exit_stack_attr self \<noteq> Missing then self\<lparr> exit_stack_attr := IsNone \<rparr> else self)
   \<and> snd (snd (snd (cleanup env self w)))
       = [CloseHttpClient]
           @ (if mcp_client_attr self = Live then [CloseMcpClient] else [])
           @ (if exit_stack_attr self = Live then [CloseExitStack] else [])"
proof -
  obtain r1 w1 t1 where g1: "guarded_close Live CloseHttpClient (http_client_aclose env) w = (r1, w1, t1)"
    by (cases "guarded_close Live CloseHttpClient (http_client_aclose env) w")
  have r1: "r1 = Inr ()" using guarded_close_ok[of Live CloseHttpClient "http_client_aclose env" w] g1 by simp
  have t1: "t1 = [CloseHttpClient]"
    using guarded_close_steps[of Live CloseHttpClient "http_client_aclose env" w] g1 by simp
  obtain r2 w2 t2 where g2: "guarded_close (mcp_client_attr self) CloseMcpClient (mcp_client_close env) w1 = (r2, w2, t2)"
    by (cases "guarded_close (mcp_client_attr self) CloseMcpClient (mcp_client_close env) w1")
  have r2: "r2 = Inr ()"
    using guarded_close_ok[of "mcp_client_attr self" CloseMcpClient "mcp_client_close env" w1] g2 by simp
  have t2: "t2 = (if mcp_client_attr self = Live then [CloseMcpClient] else [])"
    using guarded_close_steps[of "mcp_client_attr self" CloseMcpClient "mcp_client_close env" w1] g2 by simp
  define wm where "wm = (if mcp_client_attr self \<noteq> Missing then w2 else w1)"
  obtain r3 w3 t3 where g3: "guarded_close (exit_stack_attr self) CloseExitStack (exit_stack_aclose env) wm = (r3, w3, t3)"
    by (cases "guarded_close (exit_stack_attr self) CloseExitStack (exit_stack_aclose env) wm")
  have r3: "r3 = Inr ()"
    using guarded_close_ok[of "exit_stack_attr self" CloseExitStack "exit_stack_aclose env" wm] g3 by simp
  have t3: "t3 = (if exit_stack_attr self = Live then [CloseExitStack] else [])"
    using guarded_close_steps[of "exit_stack_attr self" CloseExitStack "exit_stack_aclose env" wm] g3 by simp
  show ?thesis
    using g1 r1 t1 g2 r2 t2 g3 r3 t3
    by (cases "mcp_client_attr self"; cases "exit_stack_attr self")
       (simp_all add: cleanup_def wm_def)
qed

text \<open>
  C9. Calling \<open>cleanup\<close> twice in succession raises nothing on either call, whatever the
  closing calls do: every step is tried in its own handler, so a step that raises
  (also the second call's \<open>self.exit_stack.aclose()\<close> on \<open>None\<close>) does not keep the
  others from running. The first call closes the model's HTTP client, then the tool
  client and the exit stack when they are live; the second call finds the exit stack
  set to \<open>None\<close> and closes the other two again.
\<close>

theorem cleanup_twice_never_raises:
  "fst (cleanup env self w) = Inr ()
   \<and> fst (cleanup env (fst (snd (cleanup env self w))) (fst (snd (snd (cleanup env self w)))))
       = Inr ()
   \<and> snd (snd (snd (cleanup env self w)))
       = [CloseHttpClient]
           @ (if mcp_client_attr self = Live then [CloseMcpClient] else [])
           @ (if exit_stack_attr self = Live then [CloseExitStack] else [])
   \<and> snd (snd (snd (cleanup env (fst (snd (cleanup env self w)))
                        (fst (snd (snd (cleanup env self w)))))))
       = [CloseHttpClient] @ (if mcp_client_attr self = Live then [CloseMcpClient] else [])
   \<and> exit_stack_attr (fst (snd (cleanup env self w))) \<noteq> Live"
proof -
  let ?self1 = "fst (snd (cleanup env self w))"
  let ?w1 = "fst (snd (snd (cleanup env self w)))"
  have s1: "?self1 = (if exit_stack_attr self \<noteq> Missing
                      then self\<lparr> exit_stack_attr := IsNone \<rparr> else self)"
    using cleanup_once[of env self w] by simp
  then have m1: "mcp_client_attr ?self1 = mcp_client_attr self"
    and e1: "exit_stack_attr ?self1 \<noteq> Live"
    by (simp_all split: if_splits)
  show ?thesis
    using cleanup_once[of env self w] cleanup_once[of env ?self1 ?w1] m1 e1
    by simp
qed

theorem cleanup_twice_witness:
  "cleanup example_agent_env (example_client\<lparr> mcp_client_attr := Live \<rparr>) 0
     = (Inr (), example_client\<lparr> mcp_client_attr := Live, exit_stack_attr := IsNone \<rparr>, 0,
        [CloseHttpClient, CloseMcpClient, CloseExitStack])
   \<and> cleanup example_agent_env
        (example_client\<lparr> mcp_client_attr := Live, exit_stack_attr := IsNone \<rparr>) 0
     = (Inr (), example_client\<lparr> mcp_client_attr := Live, exit_stack_attr := IsNone \<rparr>, 0,
        [CloseHttpClient, CloseMcpClient])"
  using cleanup_twice_never_raises [of example_agent_env "example_client\<lparr> mcp_client_attr := Live \<rparr>" 0]
  by (simp add: cleanup_def guarded_close_def call_on_def try_except_def
        example_agent_env_def example_client_def)

end
